theory Spec2Isabelle
  imports Main "HOL-Library.AList"
begin

section \<open>Python values\<close>

text \<open>
  A Python \<open>str\<close> is a sequence of Unicode code points, and the literals of the backend
  (the Vietnamese column headers, the total line) go beyond Latin-1, so text is a list of
  code points. \<open>asc\<close> embeds an ASCII literal. Dictionary keys are always ASCII literals
  of the source and stay Isabelle strings.
\<close>

type_synonym ustr = "nat list"

definition asc :: "string \<Rightarrow> ustr" where
  "asc s = map of_char s"

text \<open>\<open>str(n)\<close> for an integer: decimal digits, a leading minus sign for negatives.\<close>

fun digits10 :: "nat \<Rightarrow> ustr" where
  "digits10 n = (if n < 10 then [48 + n] else digits10 (n div 10) @ [48 + n mod 10])"

declare digits10.simps [simp del]

definition str_int :: "int \<Rightarrow> ustr" where
  "str_int i = (if i < 0 then 45 # digits10 (nat (- i)) else digits10 (nat i))"

text \<open>
  The values found in a row returned by the catalog store or put into an update payload:
  \<open>None\<close> (SQL null), an integer, a string.
\<close>

datatype val = VNone | VInt int | VStr ustr

type_synonym row = "(string \<times> val) list"

datatype py_error = KeyError string | TypeError | ValueError | AttributeError | IllegalCharacterError

definition bindE :: "'e + 'a \<Rightarrow> ('a \<Rightarrow> 'e + 'b) \<Rightarrow> 'e + 'b" where
  "bindE m f = (case m of Inl e \<Rightarrow> Inl e | Inr x \<Rightarrow> f x)"

text \<open>\<open>f[k]\<close> raises KeyError on a missing key; \<open>f.get(k, d)\<close> returns \<open>d\<close> there.\<close>

definition subscript :: "row \<Rightarrow> string \<Rightarrow> py_error + val" where
  "subscript f k = (case map_of f k of None \<Rightarrow> Inl (KeyError k) | Some v \<Rightarrow> Inr v)"

definition get :: "row \<Rightarrow> string \<Rightarrow> val \<Rightarrow> val" where
  "get f k d = (case map_of f k of None \<Rightarrow> d | Some v \<Rightarrow> v)"


fun py_str :: "val \<Rightarrow> ustr" where
  "py_str VNone = asc ''None''"
| "py_str (VInt n) = str_int n"
| "py_str (VStr s) = s"

section \<open>Report generator: spreadsheet\<close>

text \<open>
  The worksheet is modelled by what \<open>export_excel\<close> hands to openpyxl: the cells it
  creates with \<open>ws.cell(row, column, value)\<close>, the header style and the column widths.
  \<open>export_excel\<close> and \<open>export_pdf\<close> below are the handlers from the line after the
  query on: their argument is \<open>flowers\<close>, the records the query returned, and an \<open>Inl\<close>
  result is the exception the handler turns into a status 500.
\<close>

record cell =
  cvalue :: val
  fill :: string
  font_bold :: bool
  font_color :: string
  align_center :: bool

type_synonym worksheet = "nat \<times> nat \<Rightarrow> cell option"

definition new_cell :: cell where
  "new_cell = \<lparr>cvalue = VNone, fill = [], font_bold = False, font_color = [], align_center = False\<rparr>"

text \<open>
  Assigning a string to a cell goes through openpyxl's \<open>check_string\<close>: the string is cut
  to its first 32767 characters, and a control character among them (code points 0 to 8,
  11, 12, 14 to 31) raises IllegalCharacterError. Integers are stored as they are. The
  data type openpyxl derives from the value is not represented.
\<close>

definition illegal_char :: "nat \<Rightarrow> bool" where
  "illegal_char c \<longleftrightarrow> c \<le> 8 \<or> c = 11 \<or> c = 12 \<or> (14 \<le> c \<and> c \<le> 31)"

definition cut_string :: "val \<Rightarrow> val" where
  "cut_string v = (case v of VStr s \<Rightarrow> VStr (take 32767 s) | _ \<Rightarrow> v)"

definition illegal :: "val \<Rightarrow> bool" where
  "illegal v = (case v of VStr s \<Rightarrow> list_ex illegal_char (take 32767 s) | _ \<Rightarrow> False)"

definition bind_value :: "val \<Rightarrow> py_error + val" where
  "bind_value v = (if illegal v then Inl IllegalCharacterError else Inr (cut_string v))"

text \<open>
  \<open>ws.cell(row, column, value)\<close> creates the cell when it does not exist and assigns the
  value unless the value is \<open>None\<close>.
\<close>

definition ws_cell :: "worksheet \<Rightarrow> nat \<Rightarrow> nat \<Rightarrow> val \<Rightarrow> py_error + worksheet" where
  "ws_cell ws r c v =
     (let old = (case ws (r, c) of None \<Rightarrow> new_cell | Some cl \<Rightarrow> cl)
      in if v = VNone then Inr (ws((r, c) \<mapsto> old))
         else bindE (bind_value v) (\<lambda>v'. Inr (ws((r, c) \<mapsto> old\<lparr>cvalue := v'\<rparr>))))"








section \<open>Report generator: PDF\<close>

text \<open>
  \<open>f"{n:,}"\<close> groups the decimal digits of an integer in threes from the right, with a
  comma between the groups and the sign in front; \<open>.replace(",", ".")\<close> then turns each
  comma into a full stop. A string raises ValueError under the \<open>,\<close> format, \<open>None\<close>
  raises TypeError.
\<close>

fun sep3 :: "ustr \<Rightarrow> ustr" where
  "sep3 (a # b # c # d # xs) = a # b # c # 44 # sep3 (d # xs)"
| "sep3 xs = xs"











section \<open>Records as the spec describes them\<close>


fun is_int :: "val option \<Rightarrow> bool" where
  "is_int (Some (VInt n)) = True"
| "is_int v = False"





definition rose :: row where
  "rose = [(''name'', VStr (asc ''Rose'')), (''price'', VInt 50000), (''type'', VStr (asc ''Red'')),
           (''unit'', VStr (asc ''bunch'')), (''stock'', VInt 5)]"

definition lily :: row where
  "lily = [(''id'', VInt 2), (''name'', VStr (asc ''Lily'')), (''price'', VInt 1234567),
           (''type'', VStr (asc ''White'')), (''unit'', VStr (asc ''stem'')), (''stock'', VInt 11),
           (''tags'', VStr (asc ''wedding, white, spring, fragrant, long-lived!'')),
           (''image_url'', VNone)]"

section \<open>Image normalizer\<close>

text \<open>
  An image as Pillow presents it to \<open>resize_image\<close>: a mode, a size and one list of band
  values per pixel (\<open>[l]\<close> for L, \<open>[l, a]\<close> for LA, \<open>[index]\<close> for P, \<open>[r, g, b]\<close> for RGB,
  \<open>[r, g, b, a]\<close> for RGBA), with the RGBA entries of the palette for mode P. Band values
  are 8-bit. \<open>Mode_other m\<close> is any of Pillow's remaining modes, \<open>m\<close> being its name
  (1, F, I, I;16, CMYK, YCbCr, RGBX, ...).
\<close>

type_synonym bytes = "nat list"

datatype mode = Mode_L | Mode_LA | Mode_P | Mode_RGB | Mode_RGBA | Mode_other string

record image =
  mode :: mode
  im_size :: "nat \<times> nat"
  pixels :: "nat list list"
  palette :: "nat list list"

text \<open>\<open>Image.new('RGB', size, color)\<close>\<close>

definition Image_new :: "mode \<Rightarrow> nat \<times> nat \<Rightarrow> nat list \<Rightarrow> image" where
  "Image_new m sz color =
     \<lparr>mode = m, im_size = sz, pixels = replicate (fst sz * snd sz) color, palette = []\<rparr>"

text \<open>\<open>img.convert('RGBA')\<close> of a palette image: every index is replaced by its palette entry.\<close>

definition convert_RGBA :: "image \<Rightarrow> image" where
  "convert_RGBA img =
     img\<lparr>mode := Mode_RGBA,
         pixels := map (\<lambda>p. case p of [i] \<Rightarrow> (if i < length (palette img) then palette img ! i
                                               else [0, 0, 0, 255])
                                | _ \<Rightarrow> p) (pixels img),
         palette := []\<rparr>"

text \<open>\<open>img.split()[-1]\<close>: the last band of every pixel.\<close>

definition last_band :: "image \<Rightarrow> nat list" where
  "last_band img = map (\<lambda>p. if p = [] then 0 else last p) (pixels img)"

text \<open>
  Pillow's 8-bit blend of a destination byte \<open>in1\<close> and a source byte \<open>in2\<close> under a mask
  byte: \<open>DIV255(in1 * (255 - mask) + in2 * mask)\<close>, where \<open>DIV255(a)\<close> adds 128 and
  computes \<open>((tmp >> 8) + tmp) >> 8\<close>.
\<close>

definition blend8 :: "nat \<Rightarrow> nat \<Rightarrow> nat \<Rightarrow> nat" where
  "blend8 a in1 in2 =
     (let tmp = in1 * (255 - a) + in2 * a + 128 in (tmp div 256 + tmp) div 256)"

text \<open>
  \<open>background.paste(img, mask=m)\<close> on an RGB background of the size of \<open>img\<close>. The colour
  bands of the source are taken as they are (an L band is read as grey); without a mask
  they overwrite the background, with a mask they are blended into it band by band.
\<close>

fun rgb_bands :: "nat list \<Rightarrow> nat list" where
  "rgb_bands [l] = [l, l, l]"
| "rgb_bands [l, a] = [l, l, l]"
| "rgb_bands [r, g, b, a] = [r, g, b]"
| "rgb_bands p = p"

definition paste :: "image \<Rightarrow> image \<Rightarrow> nat list option \<Rightarrow> image" where
  "paste bg img msk =
     (case msk of
        None \<Rightarrow> bg\<lparr>pixels := map rgb_bands (pixels img)\<rparr>
      | Some m \<Rightarrow>
          bg\<lparr>pixels := map (\<lambda>(a, out, src). map (\<lambda>(d, s). blend8 a d s) (zip out (rgb_bands src)))
                             (zip m (zip (pixels bg) (pixels img)))\<rparr>)"

text \<open>
  Lines 58 to 62 of \<open>resize_image\<close>: the flattening of an RGBA, LA or P image onto a white
  RGB background.
\<close>

definition flatten :: "image \<Rightarrow> image" where
  "flatten img =
     (if mode img \<in> {Mode_RGBA, Mode_LA, Mode_P} then
        let background = Image_new Mode_RGB (im_size img) [255, 255, 255];
            img1 = (if mode img = Mode_P then convert_RGBA img else img)
        in paste background img1 (if mode img1 = Mode_RGBA then Some (last_band img1) else None)
      else img)"

text \<open>
  Decoding, the pixel values of the Lanczos resampling and the bytes of the JPEG encoding
  are Pillow's native code; \<open>resize_image\<close> takes them as a parameter. An \<open>Inl\<close> result
  is the message of the exception raised.
\<close>

record codec =
  image_open :: "bytes \<Rightarrow> ustr + image"
  resample :: "image \<Rightarrow> nat \<times> nat \<Rightarrow> nat list list"
  encode_jpeg :: "image \<Rightarrow> nat \<Rightarrow> bytes"

text \<open>
  Modelled from the spec: \<open>img.thumbnail(max_size, LANCZOS)\<close> is Pillow's, not the
  repository's. Section 4.1: downscale so that neither dimension exceeds the bound,
  preserving the aspect ratio; an image already within the bound is left at its size.
  Pillow keeps the side that reaches the bound and sets the other one to the floor or
  the ceiling of its proportional value, whichever keeps the aspect ratio closer, and to
  1 at least; it divides by the height first, which raises ZeroDivisionError for a
  height of 0. Pillow compares in floating point, the model exactly.
\<close>

definition dist :: "nat \<Rightarrow> nat \<Rightarrow> nat" where
  "dist a b = (if a \<le> b then b - a else a - b)"

definition thumbnail_size :: "nat \<times> nat \<Rightarrow> nat \<times> nat \<Rightarrow> ustr + nat \<times> nat" where
  "thumbnail_size sz bound =
     (let w = fst sz; h = snd sz; x = fst bound; y = snd bound
      in if w \<le> x \<and> h \<le> y then Inr (w, h)
         else if h = 0 \<or> y = 0 then Inl (asc ''division by zero'')
         else if w * y \<le> x * h
         then (let f = (y * w) div h;
                   c = (if (y * w) mod h = 0 then f else f + 1);
                   n = (if dist (w * y) (f * h) \<le> dist (w * y) (c * h) then f else c)
               in Inr (max n 1, y))
         else (let f = (x * h) div w;
                   c = (if (x * h) mod w = 0 then f else f + 1);
                   n = (if f = 0 \<or> dist (w * f) (x * h) * c \<le> dist (w * c) (x * h) * f then f else c)
               in Inr (x, max n 1)))"

definition thumbnail :: "codec \<Rightarrow> image \<Rightarrow> nat \<times> nat \<Rightarrow> ustr + image" where
  "thumbnail c img bound =
     (case thumbnail_size (im_size img) bound of
        Inl msg \<Rightarrow> Inl msg
      | Inr sz \<Rightarrow> if sz = im_size img then Inr img
                  else Inr (img\<lparr>im_size := sz, pixels := resample c img sz\<rparr>))"

text \<open>
  Modelled from the spec: \<open>img.save(output, format='JPEG', quality=95)\<close> is Pillow's.
  Section 4.1 names the encode error; Pillow's JPEG encoder writes the modes 1, L, RGB,
  RGBX, CMYK and YCbCr and raises for every other mode and for an image without pixels.
\<close>

fun mode_name :: "mode \<Rightarrow> string" where
  "mode_name Mode_L = ''L''"
| "mode_name Mode_LA = ''LA''"
| "mode_name Mode_P = ''P''"
| "mode_name Mode_RGB = ''RGB''"
| "mode_name Mode_RGBA = ''RGBA''"
| "mode_name (Mode_other m) = m"

definition jpeg_writable :: "mode \<Rightarrow> bool" where
  "jpeg_writable m \<longleftrightarrow> mode_name m \<in> set [''1'', ''L'', ''RGB'', ''RGBX'', ''CMYK'', ''YCbCr'']"

definition save_jpeg :: "codec \<Rightarrow> image \<Rightarrow> nat \<Rightarrow> ustr + bytes" where
  "save_jpeg c img quality =
     (if fst (im_size img) = 0 \<or> snd (im_size img) = 0
      then Inl (asc ''cannot write empty image as JPEG'')
      else if jpeg_writable (mode img) then Inr (encode_jpeg c img quality)
      else Inl (asc ''cannot write mode '' @ asc (mode_name (mode img)) @ asc '' as JPEG''))"

datatype exn = HTTPException nat ustr | Exception ustr

definition resize_image :: "codec \<Rightarrow> bytes \<Rightarrow> exn + bytes" where
  "resize_image c image_data =
     (case image_open c image_data of
        Inl msg \<Rightarrow> Inl (Exception msg)
      | Inr img \<Rightarrow>
          (let img1 = flatten img
           in case thumbnail c img1 (1200, 1200) of
                Inl msg \<Rightarrow> Inl (Exception msg)
              | Inr img2 \<Rightarrow>
                  (case save_jpeg c img2 95 of
                     Inl msg \<Rightarrow> Inl (Exception msg)
                   | Inr output \<Rightarrow> Inr output)))"

text \<open>
  The claim's own words, for comparison: a pixel of grey level \<open>l\<close> and opacity \<open>a\<close>
  composited over pure white, rounded to the nearest byte.
\<close>

definition composite_over_white :: "nat \<Rightarrow> nat \<Rightarrow> nat" where
  "composite_over_white c a = (c * a + 255 * (255 - a) + 127) div 255"

section \<open>The external collaborators\<close>

text \<open>
  The module-level \<open>supabase\<close> is the client, or \<open>None\<close> when the connection failed at
  start-up. The client holds the catalog table, the reference table of types, the bucket
  of the object store and a log of the calls made on it. \<open>storage_error\<close> is \<open>None\<close> when the
  object store works, and the message of the exception it raises otherwise; \<open>uuids\<close> are the values
  \<open>uuid4().hex\<close> is going to return.
\<close>

datatype call =
  TableSelect
| TableInsert row
| TableUpdate ustr row
| TableDelete ustr
| StorageUpload ustr bytes
| StorageUrl ustr
| StorageRemove ustr

record client =
  table_flowers :: "row list"
  table_flower_types :: "row list"
  bucket :: "(ustr \<times> bytes) list"
  calls :: "call list"
  storage_error :: "ustr option"
  base_url :: ustr
  uuids :: "ustr list"
  next_id :: int
  clock :: int

text \<open>
  Modelled from the spec: the Catalog Store Client is an external service and its code is
  not part of the repository. Section 4.3 gives \<open>insert(record) -> record\<close>,
  \<open>update(id, partialRecord) -> record | not-found\<close>, \<open>delete(id) -> void\<close> and \<open>find\<close>
  with the filter predicates; the store assigns \<open>id\<close> and \<open>created_at\<close> on creation.
  \<open>.eq("id", flower_id)\<close> selects the rows whose id prints as \<open>flower_id\<close>.
\<close>

definition matches_id :: "ustr \<Rightarrow> row \<Rightarrow> bool" where
  "matches_id flower_id f =
     (case map_of f ''id'' of None \<Rightarrow> False | Some VNone \<Rightarrow> False | Some v \<Rightarrow> py_str v = flower_id)"

definition merge :: "row \<Rightarrow> row \<Rightarrow> row" where
  "merge f data = fold (\<lambda>(k, v). AList.update k v) data f"

definition table_insert :: "client \<Rightarrow> row \<Rightarrow> row list \<times> client" where
  "table_insert cl data =
     (let f = merge [(''id'', VInt (next_id cl)), (''created_at'', VInt (clock cl))] data
      in ([f], cl\<lparr>table_flowers := table_flowers cl @ [f], calls := calls cl @ [TableInsert data],
                   next_id := next_id cl + 1, clock := clock cl + 1\<rparr>))"

definition table_update :: "client \<Rightarrow> row \<Rightarrow> ustr \<Rightarrow> row list \<times> client" where
  "table_update cl data flower_id =
     (let fs = map (\<lambda>f. if matches_id flower_id f then merge f data else f) (table_flowers cl)
      in (map (\<lambda>f. merge f data) (filter (matches_id flower_id) (table_flowers cl)),
          cl\<lparr>table_flowers := fs, calls := calls cl @ [TableUpdate flower_id data]\<rparr>))"

definition table_delete :: "client \<Rightarrow> ustr \<Rightarrow> client" where
  "table_delete cl flower_id =
     cl\<lparr>table_flowers := filter (\<lambda>f. \<not> matches_id flower_id f) (table_flowers cl),
        calls := calls cl @ [TableDelete flower_id]\<rparr>"

definition table_select_id :: "client \<Rightarrow> ustr \<Rightarrow> row list \<times> client" where
  "table_select_id cl flower_id =
     (filter (matches_id flower_id) (table_flowers cl), cl\<lparr>calls := calls cl @ [TableSelect]\<rparr>)"

text \<open>
  Modelled from the spec: the Object Store Client of section 4.2, \<open>upload(key, bytes,
  contentType)\<close> with upsert, \<open>publicUrl(key)\<close> and a best-effort \<open>remove(key)\<close>.
\<close>

definition storage_upload :: "client \<Rightarrow> ustr \<Rightarrow> bytes \<Rightarrow> (exn + unit) \<times> client" where
  "storage_upload cl filename content =
     (let cl1 = cl\<lparr>calls := calls cl @ [StorageUpload filename content]\<rparr>
      in case storage_error cl of
           Some msg \<Rightarrow> (Inl (Exception msg), cl1)
         | None \<Rightarrow> (Inr (), cl1\<lparr>bucket := AList.update filename content (bucket cl)\<rparr>))"

definition get_public_url :: "client \<Rightarrow> ustr \<Rightarrow> ustr \<times> client" where
  "get_public_url cl filename =
     (base_url cl @ filename, cl\<lparr>calls := calls cl @ [StorageUrl filename]\<rparr>)"

definition storage_remove :: "client \<Rightarrow> ustr \<Rightarrow> client" where
  "storage_remove cl filename =
     cl\<lparr>bucket := (if storage_error cl = None then AList.delete filename (bucket cl) else bucket cl),
        calls := calls cl @ [StorageRemove filename]\<rparr>"

section \<open>Request handlers\<close>

record upload_file =
  filename :: "ustr option"
  content :: bytes

text \<open>\<open>if x:\<close> for an optional string and an optional integer of a form.\<close>

definition given_str :: "ustr option \<Rightarrow> bool" where
  "given_str s = (case s of None \<Rightarrow> False | Some x \<Rightarrow> x \<noteq> [])"

definition given_int :: "int option \<Rightarrow> bool" where
  "given_int n = (case n of None \<Rightarrow> False | Some x \<Rightarrow> x \<noteq> 0)"

text \<open>\<open>image and image.filename\<close>\<close>

definition given_file :: "upload_file option \<Rightarrow> bool" where
  "given_file image_file = (case image_file of None \<Rightarrow> False | Some f \<Rightarrow> given_str (filename f))"

text \<open>
  \<open>str(url).strip()\<close>: leading and trailing white space removed, white space being the
  code points for which \<open>str.isspace\<close> holds.
\<close>

definition is_space :: "nat \<Rightarrow> bool" where
  "is_space c \<longleftrightarrow>
     (9 \<le> c \<and> c \<le> 13) \<or> (28 \<le> c \<and> c \<le> 32) \<or> c = 133 \<or> c = 160 \<or> c = 5760 \<or>
     (8192 \<le> c \<and> c \<le> 8202) \<or> c = 8232 \<or> c = 8233 \<or> c = 8239 \<or> c = 8287 \<or> c = 12288"

definition strip :: "ustr \<Rightarrow> ustr" where
  "strip s = rev (dropWhile is_space (rev (dropWhile is_space s)))"

text \<open>
  \<open>upload_image_to_supabase\<close>: every exception raised in its body (no client, a failing
  \<open>resize_image\<close>, a failing upload) is caught and turned into the result \<open>None\<close>.
\<close>

definition upload_image_to_supabase ::
  "codec \<Rightarrow> client option \<Rightarrow> upload_file \<Rightarrow> ustr \<Rightarrow> ustr option \<times> client option" where
  "upload_image_to_supabase c supabase file flower_name =
     (case supabase of
        None \<Rightarrow> (None, None)
      | Some cl \<Rightarrow>
          (case resize_image c (content file) of
             Inl e \<Rightarrow> (None, Some cl)
           | Inr resized_data \<Rightarrow>
               (let filename = asc ''flower_'' @ (case uuids cl of [] \<Rightarrow> [] | u # us \<Rightarrow> u) @ asc ''.jpg'';
                    cl1 = cl\<lparr>uuids := tl (uuids cl)\<rparr>
                in case storage_upload cl1 filename resized_data of
                     (Inl e, cl2) \<Rightarrow> (None, Some cl2)
                   | (Inr u, cl2) \<Rightarrow>
                       (let (url, cl3) = get_public_url cl2 filename
                        in (Some (strip url), Some cl3)))))"

text \<open>
  \<open>str(e)\<close> of a caught exception; an HTTPException prints as status and detail.
\<close>

fun str_exn :: "exn \<Rightarrow> ustr" where
  "str_exn (Exception msg) = msg"
| "str_exn (HTTPException status detail) = str_int (int status) @ asc '': '' @ detail"

definition no_client :: ustr where
  "no_client = asc ''DB not connected''"

text \<open>The message of the AttributeError raised by \<open>x.attr\<close> on an object without it.\<close>

definition no_attribute :: "string \<Rightarrow> string \<Rightarrow> ustr" where
  "no_attribute ty attr =
     [39] @ asc ty @ [39] @ asc '' object has no attribute '' @ [39] @ asc attr @ [39]"

text \<open>
  \<open>create_flower\<close>: the whole body is under \<open>except Exception as e: raise
  HTTPException(500, str(e))\<close>, which also catches the HTTPException of the first line.
\<close>

definition create_flower ::
  "codec \<Rightarrow> client option \<Rightarrow> ustr \<Rightarrow> int \<Rightarrow> ustr \<Rightarrow> ustr \<Rightarrow> int \<Rightarrow> ustr \<Rightarrow> upload_file option
     \<Rightarrow> (exn + ustr \<times> row) \<times> client option" where
  "create_flower c supabase name price type unit stock tags image_file =
     (if supabase = None
      then (Inl (HTTPException 500 (str_exn (HTTPException 500 no_client))), supabase)
      else
        let (image_url, sup1) =
              (case image_file of
                 None \<Rightarrow> (None, supabase)
               | Some f \<Rightarrow> if given_str (filename f) then upload_image_to_supabase c supabase f name
                           else (None, supabase));
            data = [(''name'', VStr name), (''price'', VInt price), (''type'', VStr type),
                    (''unit'', VStr unit), (''stock'', VInt stock), (''tags'', VStr tags),
                    (''image_url'', case image_url of None \<Rightarrow> VNone | Some u \<Rightarrow> VStr u)]
        in case sup1 of
             None \<Rightarrow> (Inl (HTTPException 500 (no_attribute ''NoneType'' ''table'')), sup1)
           | Some cl \<Rightarrow>
               (case table_insert cl data of
                  ([], cl') \<Rightarrow> (Inl (HTTPException 500 (asc ''list index out of range'')), Some cl')
                | (f # fs, cl') \<Rightarrow> (Inr (asc ''Flower created'', f), Some cl')))"

text \<open>
  \<open>update_flower\<close>. The payload \<open>data\<close> starts empty; \<open>name\<close>, \<open>price\<close>, \<open>type\<close> and
  \<open>unit\<close> enter it when they are truthy (\<open>if name:\<close>), \<open>stock\<close> and \<open>tags\<close> when they are
  not \<open>None\<close>, \<open>image_url\<close> when the upload returned a URL. \<open>update_data\<close> is that
  sequence of assignments, with the result of the upload as its last argument.
  HTTPExceptions pass through the handler unchanged.
\<close>

definition update_data ::
  "ustr option \<Rightarrow> int option \<Rightarrow> ustr option \<Rightarrow> ustr option \<Rightarrow> int option \<Rightarrow> ustr option
     \<Rightarrow> ustr option \<Rightarrow> row" where
  "update_data name price type unit stock tags image_url =
     (let data0 = [];
          data1 = (case name of Some n \<Rightarrow> if n \<noteq> [] then AList.update ''name'' (VStr n) data0 else data0
                   | None \<Rightarrow> data0);
          data2 = (case price of Some p \<Rightarrow> if p \<noteq> 0 then AList.update ''price'' (VInt p) data1 else data1
                   | None \<Rightarrow> data1);
          data3 = (case type of Some t \<Rightarrow> if t \<noteq> [] then AList.update ''type'' (VStr t) data2 else data2
                   | None \<Rightarrow> data2);
          data4 = (case unit of Some u \<Rightarrow> if u \<noteq> [] then AList.update ''unit'' (VStr u) data3 else data3
                   | None \<Rightarrow> data3);
          data5 = (case stock of Some k \<Rightarrow> AList.update ''stock'' (VInt k) data4 | None \<Rightarrow> data4);
          data6 = (case tags of Some t \<Rightarrow> AList.update ''tags'' (VStr t) data5 | None \<Rightarrow> data5)
      in case image_url of
           Some u \<Rightarrow> if u \<noteq> [] then AList.update ''image_url'' (VStr u) data6 else data6
         | None \<Rightarrow> data6)"

definition update_flower ::
  "codec \<Rightarrow> client option \<Rightarrow> ustr \<Rightarrow> ustr option \<Rightarrow> int option \<Rightarrow> ustr option \<Rightarrow> ustr option
     \<Rightarrow> int option \<Rightarrow> ustr option \<Rightarrow> upload_file option \<Rightarrow> (exn + ustr \<times> row) \<times> client option" where
  "update_flower c supabase flower_id name price type unit stock tags image_file =
     (if supabase = None then (Inl (HTTPException 500 no_client), supabase)
      else
        let (image_url, sup1) =
              (case image_file of
                 None \<Rightarrow> (None, supabase)
               | Some f \<Rightarrow>
                   if given_str (filename f)
                   then upload_image_to_supabase c supabase f
                          (case name of Some n \<Rightarrow> if n \<noteq> [] then n else asc ''flower''
                           | None \<Rightarrow> asc ''flower'')
                   else (None, supabase));
            data = update_data name price type unit stock tags image_url
        in if data = [] then (Inl (HTTPException 400 (asc ''No data to update'')), sup1)
           else
             case sup1 of
               None \<Rightarrow> (Inl (HTTPException 500 (no_attribute ''NoneType'' ''table'')), sup1)
             | Some cl \<Rightarrow>
                 (case table_update cl data flower_id of
                    ([], cl') \<Rightarrow> (Inl (HTTPException 404 (asc ''Flower not found'')), Some cl')
                  | (f # fs, cl') \<Rightarrow> (Inr (asc ''Updated'', f), Some cl')))"

text \<open>
  \<open>delete_flower\<close>: the blob of the record, when there is one, is removed best-effort
  (\<open>try: ... except: pass\<close>); then the row is deleted and the handler answers
  \<open>Deleted\<close>. The storage key is the last path segment of the stored URL.
\<close>

definition last_segment :: "ustr \<Rightarrow> ustr" where
  "last_segment url = rev (takeWhile (\<lambda>c. c \<noteq> 47) (rev url))"

definition delete_flower :: "client option \<Rightarrow> ustr \<Rightarrow> (exn + ustr) \<times> client option" where
  "delete_flower supabase flower_id =
     (case supabase of
        None \<Rightarrow> (Inl (HTTPException 500 (str_exn (HTTPException 500 no_client))), None)
      | Some cl \<Rightarrow>
          (let (flower, cl1) = table_select_id cl flower_id
           in case (case flower of
                      [] \<Rightarrow> Inr cl1
                    | f # fs \<Rightarrow>
                        (case get f ''image_url'' VNone of
                           VStr url \<Rightarrow> if url \<noteq> [] then Inr (storage_remove cl1 (last_segment url))
                                       else Inr cl1
                         | VInt n \<Rightarrow> if n \<noteq> 0 then Inl (no_attribute ''int'' ''split'') else Inr cl1
                         | VNone \<Rightarrow> Inr cl1)) of
                Inl msg \<Rightarrow> (Inl (HTTPException 500 msg), Some cl1)
              | Inr cl2 \<Rightarrow> (Inr (asc ''Deleted''), Some (table_delete cl2 flower_id))))"

text \<open>
  \<open>get_flowers\<close>. Modelled from the spec: the query of section 4.3, with \<open>eq\<close> an exact
  match, \<open>lte\<close> an inclusive maximum, \<open>order("created_at", desc=True)\<close> and
  \<open>range(from, to)\<close> the rows at the offsets \<open>from\<close> to \<open>to\<close> inclusive. The
  case-insensitive pattern match of the database is the parameter \<open>ilike\<close>; a null
  column matches no filter.
\<close>

definition eq_col :: "string \<Rightarrow> ustr \<Rightarrow> row \<Rightarrow> bool" where
  "eq_col col v f = (map_of f col = Some (VStr v))"

definition lte :: "string \<Rightarrow> int \<Rightarrow> row \<Rightarrow> bool" where
  "lte col n f = (case map_of f col of Some (VInt v) \<Rightarrow> v \<le> n | _ \<Rightarrow> False)"

definition ilike_col :: "(ustr \<Rightarrow> ustr \<Rightarrow> bool) \<Rightarrow> string \<Rightarrow> ustr \<Rightarrow> row \<Rightarrow> bool" where
  "ilike_col ilike col pat f = (case map_of f col of Some (VStr v) \<Rightarrow> ilike pat v | _ \<Rightarrow> False)"

definition created_at :: "row \<Rightarrow> int" where
  "created_at f = (case map_of f ''created_at'' of Some (VInt t) \<Rightarrow> t | _ \<Rightarrow> 0)"

definition order_desc :: "row list \<Rightarrow> row list" where
  "order_desc fs = rev (sort_key created_at fs)"

definition range_rows :: "int \<Rightarrow> int \<Rightarrow> row list \<Rightarrow> row list" where
  "range_rows from to fs = take (nat (to - from + 1)) (drop (nat from) fs)"

definition all_types :: ustr where
  "all_types = asc ''T'' @ [7845] @ asc ''t c'' @ [7843]"

definition get_flowers ::
  "(ustr \<Rightarrow> ustr \<Rightarrow> bool) \<Rightarrow> client option \<Rightarrow> ustr option \<Rightarrow> ustr option \<Rightarrow> ustr option \<Rightarrow> bool
     \<Rightarrow> int \<Rightarrow> int \<Rightarrow> (exn + row list \<times> nat) \<times> client option" where
  "get_flowers ilike supabase search type tags low_stock skip limit =
     (case supabase of
        None \<Rightarrow> (Inl (HTTPException 500 (str_exn (HTTPException 500 no_client))), None)
      | Some cl \<Rightarrow>
          (let q0 = table_flowers cl;
               q1 = (case search of
                       Some s \<Rightarrow> if s \<noteq> [] then filter (ilike_col ilike ''name'' ([37] @ s @ [37])) q0
                                 else q0
                     | None \<Rightarrow> q0);
               q2 = (case type of
                       Some t \<Rightarrow> if t \<noteq> [] \<and> t \<noteq> all_types then filter (eq_col ''type'' t) q1 else q1
                     | None \<Rightarrow> q1);
               q3 = (case tags of
                       Some t \<Rightarrow> if t \<noteq> [] then filter (ilike_col ilike ''tags'' ([37] @ t @ [37])) q2
                                 else q2
                     | None \<Rightarrow> q2);
               q4 = (if low_stock then filter (lte ''stock'' 10) q3 else q3);
               data = range_rows skip (skip + limit - 1) (order_desc q4)
           in (Inr (data, length data), Some (cl\<lparr>calls := calls cl @ [TableSelect]\<rparr>))))"

text \<open>
  \<open>get_stats\<close> has no \<open>try\<close>: an exception leaves the handler as it is.
  \<open>sum(f["price"] for f in flowers)\<close> and
  \<open>sum(1 for f in flowers if f.get("stock", 0) <= 10)\<close> are the two loops; adding or
  comparing \<open>None\<close> or a string with an integer raises TypeError.
\<close>

fun sum_prices :: "int \<Rightarrow> row list \<Rightarrow> py_error + int" where
  "sum_prices acc [] = Inr acc"
| "sum_prices acc (f # fs) =
     bindE (subscript f ''price'')
       (\<lambda>v. case v of VInt p \<Rightarrow> sum_prices (acc + p) fs | _ \<Rightarrow> Inl TypeError)"

fun count_low_stock :: "nat \<Rightarrow> row list \<Rightarrow> py_error + nat" where
  "count_low_stock acc [] = Inr acc"
| "count_low_stock acc (f # fs) =
     (case get f ''stock'' (VInt 0) of
        VInt k \<Rightarrow> count_low_stock (if k \<le> 10 then acc + 1 else acc) fs
      | _ \<Rightarrow> Inl TypeError)"

record stats =
  total_flowers :: nat
  total_types :: nat
  total_value :: int
  low_stock_count :: nat

definition get_stats :: "client option \<Rightarrow> (py_error + stats) \<times> client option" where
  "get_stats supabase =
     (case supabase of
        None \<Rightarrow> (Inl AttributeError, None)
      | Some cl \<Rightarrow>
          (let cl' = cl\<lparr>calls := calls cl @ [TableSelect, TableSelect]\<rparr>
           in (bindE (sum_prices 0 (table_flowers cl)) (\<lambda>tv.
               bindE (count_low_stock 0 (table_flowers cl)) (\<lambda>lc.
               Inr \<lparr>total_flowers = length (table_flowers cl), total_types = length (table_flower_types cl),
                    total_value = tv, low_stock_count = lc\<rparr>)), Some cl')))"

section \<open>Sample states\<close>

text \<open>
  A connected client holding the two sample records, a second one whose records have
  stock 10, 11 and 5, a pattern match that accepts everything, a codec that decodes
  nothing, a one-pixel grey image at about half opacity and an uploaded file.
\<close>

definition shop :: client where
  "shop = \<lparr>table_flowers = [(''id'', VInt 1) # (''created_at'', VInt 100) # rose, lily],
           table_flower_types = [], bucket = [], calls = [], storage_error = None,
           base_url = asc ''https://cdn.example/flower-images/'', uuids = [asc ''00ff''],
           next_id = 3, clock = 101\<rparr>"

definition no_codec :: codec where
  "no_codec = \<lparr>image_open = (\<lambda>b. Inl (asc ''cannot identify image file'')),
               resample = (\<lambda>img sz. []),
               encode_jpeg = (\<lambda>img q. [])\<rparr>"

text \<open>
  A codec for which every file is one grey pixel, one for which every file is an opaque
  black RGBA image of 4000 by 3000 pixels, and one for which every file is one pixel of
  mode F (32-bit floating point, as a TIFF can hold).
\<close>

definition plain_codec :: codec where
  "plain_codec = \<lparr>image_open = (\<lambda>b. Inr \<lparr>mode = Mode_L, im_size = (1, 1), pixels = [[7]], palette = []\<rparr>),
                  resample = (\<lambda>img sz. replicate (fst sz * snd sz) [7]),
                  encode_jpeg = (\<lambda>img q. [255, 216, 255, 217])\<rparr>"

definition wide_codec :: codec where
  "wide_codec = plain_codec\<lparr>image_open :=
      (\<lambda>b. Inr \<lparr>mode = Mode_RGBA, im_size = (4000, 3000),
                 pixels = replicate 12000000 [0, 0, 0, 255], palette = []\<rparr>)\<rparr>"

definition float_codec :: codec where
  "float_codec = plain_codec\<lparr>image_open :=
      (\<lambda>b. Inr \<lparr>mode = Mode_other ''F'', im_size = (1, 1), pixels = [[0]], palette = []\<rparr>)\<rparr>"

definition veiled_grey :: image where
  "veiled_grey = \<lparr>mode = Mode_LA, im_size = (1, 1), pixels = [[100, 128]], palette = []\<rparr>"

definition orchid :: row where
  "orchid = [(''id'', VInt 7), (''created_at'', VInt 50), (''name'', VStr (asc ''Orchid'')),
             (''price'', VInt 80000), (''type'', VStr (asc ''Pink'')), (''unit'', VStr (asc ''pot'')),
             (''stock'', VInt 10)]"

definition shop10 :: client where
  "shop10 = shop\<lparr>table_flowers := [orchid, lily, (''id'', VInt 1) # (''created_at'', VInt 100) # rose]\<rparr>"

definition any_match :: "ustr \<Rightarrow> ustr \<Rightarrow> bool" where
  "any_match pat v = True"

definition photo :: upload_file where
  "photo = \<lparr>filename = Some (asc ''rose.png''), content = [137, 80, 78, 71]\<rparr>"

section \<open>Report generator: proofs\<close>

lemma bindE_Inr [simp]: "bindE (Inr x) f = f x" by (simp add: bindE_def)
lemma bindE_Inl [simp]: "bindE (Inl e) f = Inl e" by (simp add: bindE_def)



lemma is_int_iff: "is_int v \<longleftrightarrow> (\<exists>n. v = Some (VInt n))"
  by (cases v rule: is_int.cases) simp_all


subsection \<open>PDF rows\<close>




subsection \<open>Spreadsheet rows\<close>


lemma illegal_simps [simp]: "\<not> illegal VNone" "\<not> illegal (VInt n)"
  by (simp_all add: illegal_def)

lemma cut_string_simps [simp]:
  "cut_string VNone = VNone" "cut_string (VInt n) = VInt n" "cut_string (VStr s) = VStr (take 32767 s)"
  by (simp_all add: cut_string_def)

lemma ws_cell_Inr_iff:
  "ws_cell ws r c v = Inr ws' \<longleftrightarrow>
     \<not> illegal v \<and>
     ws' = ws((r, c) \<mapsto>
       (if v = VNone then (case ws (r, c) of None \<Rightarrow> new_cell | Some cl \<Rightarrow> cl)
        else (case ws (r, c) of None \<Rightarrow> new_cell | Some cl \<Rightarrow> cl)\<lparr>cvalue := cut_string v\<rparr>))"
  by (auto simp: ws_cell_def Let_def bind_value_def)

lemma ws_cell_refused: "illegal v \<Longrightarrow> ws_cell ws r c v = Inl IllegalCharacterError"
  by (auto simp: ws_cell_def Let_def bind_value_def)

lemma ws_cell_accepted: "\<not> illegal v \<Longrightarrow> \<exists>ws'. ws_cell ws r c v = Inr ws'"
  by (simp add: ws_cell_Inr_iff)
















subsection \<open>Digit grouping\<close>




lemma sep3_length: "length xs \<le> length (sep3 xs)"
  by (induction xs rule: sep3.induct) auto






subsection \<open>The two exports\<close>










section \<open>Image normalizer: proofs\<close>

lemma round_near:
  fixes d N b n :: nat
  assumes d: "0 < d" and N: "0 < N" and b: "N \<le> b * d" and b1: "1 \<le> b"
    and n: "n = N div d \<or> n = (if N mod d = 0 then N div d else N div d + 1)"
  shows "1 \<le> max n 1 \<and> max n 1 \<le> b \<and> max n 1 * d < N + d \<and> N < max n 1 * d + d"
proof -
  define f where "f = N div d"
  have f1: "f * d \<le> N" unfolding f_def by simp
  have f2: "N < f * d + d"
    unfolding f_def using d by (metis add.commute dividend_less_div_times)
  have fb: "f \<le> b"
  proof -
    from f1 b have "f * d \<le> b * d" by linarith
    with d show ?thesis by simp
  qed
  from n consider (floor) "n = f" | (ceil) "N mod d \<noteq> 0" "n = f + 1"
    unfolding f_def by (auto split: if_splits)
  then show ?thesis
  proof cases
    case floor
    show ?thesis
    proof (cases "f = 0")
      case True
      with f2 have "N < d" by simp
      with floor True N b1 show ?thesis by simp
    next
      case False
      then have "max n 1 = f" using floor by simp
      with f1 f2 fb False show ?thesis by simp
    qed
  next
    case ceil
    have "N = f * d + N mod d" unfolding f_def by simp
    with ceil(1) have lt: "f * d < N" by linarith
    have m: "max n 1 = f + 1" using ceil(2) by simp
    have "(f + 1) * d < (b + 1) * d"
    proof -
      from lt b have "f * d < b * d" by linarith
      then show ?thesis by simp
    qed
    with d have "f + 1 \<le> b" by simp
    with m lt f2 show ?thesis by simp
  qed
qed

lemma thumbnail_size_within:
  "w \<le> x \<Longrightarrow> h \<le> y \<Longrightarrow> thumbnail_size (w, h) (x, y) = Inr (w, h)"
  by (simp add: thumbnail_size_def)

lemma thumbnail_size_scaled:
  assumes "0 < w" and "0 < h" and "1 \<le> x" and "1 \<le> y" and "\<not> (w \<le> x \<and> h \<le> y)"
  shows "\<exists>w2 h2. thumbnail_size (w, h) (x, y) = Inr (w2, h2) \<and>
           1 \<le> w2 \<and> w2 \<le> x \<and> 1 \<le> h2 \<and> h2 \<le> y \<and>
           (h2 = y \<and> w2 * h < y * w + h \<and> y * w < w2 * h + h \<or>
            w2 = x \<and> h2 * w < x * h + w \<and> x * h < h2 * w + w)"
proof (cases "w * y \<le> x * h")
  case True
  define f where "f = (y * w) div h"
  define c where "c = (if (y * w) mod h = 0 then f else f + 1)"
  define n where "n = (if dist (w * y) (f * h) \<le> dist (w * y) (c * h) then f else c)"
  have r: "thumbnail_size (w, h) (x, y) = Inr (max n 1, y)"
    using assms True by (auto simp add: thumbnail_size_def Let_def f_def c_def n_def)
  have "n = (y * w) div h \<or> n = (if (y * w) mod h = 0 then (y * w) div h else (y * w) div h + 1)"
    unfolding n_def c_def f_def by simp
  moreover have "0 < y * w" using assms by simp
  moreover have "y * w \<le> x * h" using True by (simp add: mult.commute)
  ultimately have "1 \<le> max n 1 \<and> max n 1 \<le> x \<and> max n 1 * h < y * w + h \<and> y * w < max n 1 * h + h"
    using round_near [of h "y * w" x n] assms by blast
  with r assms show ?thesis by simp
next
  case False
  define f where "f = (x * h) div w"
  define c where "c = (if (x * h) mod w = 0 then f else f + 1)"
  define n where "n = (if f = 0 \<or> dist (w * f) (x * h) * c \<le> dist (w * c) (x * h) * f then f else c)"
  have r: "thumbnail_size (w, h) (x, y) = Inr (x, max n 1)"
    using assms False by (auto simp add: thumbnail_size_def Let_def f_def c_def n_def)
  have "n = (x * h) div w \<or> n = (if (x * h) mod w = 0 then (x * h) div w else (x * h) div w + 1)"
    unfolding n_def c_def f_def by simp
  moreover have "0 < x * h" using assms by simp
  moreover have "x * h \<le> y * w" using False by (simp add: mult.commute)
  ultimately have "1 \<le> max n 1 \<and> max n 1 \<le> y \<and> max n 1 * w < x * h + w \<and> x * h < max n 1 * w + w"
    using round_near [of w "x * h" y n] assms by blast
  with r assms show ?thesis by simp
qed

lemma flatten_size: "im_size (flatten img) = im_size img"
  by (simp add: flatten_def paste_def Image_new_def Let_def split: option.splits)

lemma flatten_mode:
  "mode (flatten img) = (if mode img \<in> {Mode_RGBA, Mode_LA, Mode_P} then Mode_RGB else mode img)"
  by (simp add: flatten_def paste_def Image_new_def Let_def split: option.splits)

lemma jpeg_writable_RGB: "jpeg_writable Mode_RGB"
  by (simp add: jpeg_writable_def)

lemma jpeg_writable_opaque: "jpeg_writable m \<Longrightarrow> m \<notin> {Mode_RGBA, Mode_LA, Mode_P}"
  by (auto simp add: jpeg_writable_def)

lemma thumbnail_result:
  assumes sz: "im_size i = (w, h)" and w: "0 < w" and h: "0 < h"
  shows "\<exists>i2. thumbnail c i (1200, 1200) = Inr i2 \<and> mode i2 = mode i \<and>
           1 \<le> fst (im_size i2) \<and> fst (im_size i2) \<le> 1200 \<and>
           1 \<le> snd (im_size i2) \<and> snd (im_size i2) \<le> 1200 \<and>
           (w \<le> 1200 \<and> h \<le> 1200 \<longrightarrow> i2 = i) \<and>
           (\<not> (w \<le> 1200 \<and> h \<le> 1200) \<longrightarrow>
              snd (im_size i2) = 1200 \<and> fst (im_size i2) * h < 1200 * w + h \<and>
                1200 * w < fst (im_size i2) * h + h \<or>
              fst (im_size i2) = 1200 \<and> snd (im_size i2) * w < 1200 * h + w \<and>
                1200 * h < snd (im_size i2) * w + w)"
proof (cases "w \<le> 1200 \<and> h \<le> 1200")
  case True
  then have "thumbnail_size (w, h) (1200, 1200) = Inr (w, h)"
    by (simp add: thumbnail_size_within)
  then have "thumbnail c i (1200, 1200) = Inr i"
    by (simp add: thumbnail_def sz)
  with True sz w h show ?thesis by simp
next
  case False
  from thumbnail_size_scaled [OF w h _ _ False]
  obtain w2 h2 where t: "thumbnail_size (w, h) (1200, 1200) = Inr (w2, h2)"
    and b: "1 \<le> w2" "w2 \<le> 1200" "1 \<le> h2" "h2 \<le> 1200"
    and a: "h2 = 1200 \<and> w2 * h < 1200 * w + h \<and> 1200 * w < w2 * h + h \<or>
            w2 = 1200 \<and> h2 * w < 1200 * h + w \<and> 1200 * h < h2 * w + w"
    by auto
  from False b have ne: "(w2, h2) \<noteq> (w, h)" by auto
  have "thumbnail c i (1200, 1200) =
          Inr (i\<lparr>im_size := (w2, h2), pixels := resample c i (w2, h2)\<rparr>)"
    using t ne by (auto simp add: thumbnail_def sz)
  with False b a show ?thesis by auto
qed

text \<open>
  Claim C1, amended. The claim: for every input that decodes to a valid image,
  \<open>resize_image\<close> returns JPEG bytes of an opaque image with both sides at most 1200 and
  the aspect ratio preserved, and an input within 1200 by 1200 keeps its dimensions. As
  the code is written: let the input decode to an image of \<open>w\<close> by \<open>h\<close> pixels, both at
  least 1. If its mode is RGBA, LA or P (which the source flattens to RGB), or a mode
  the JPEG encoder writes, then \<open>resize_image\<close> returns the JPEG encoding at quality 95
  of an image in an encoder mode (none of which has an alpha band), with both sides
  between 1 and 1200; within 1200 by 1200 that image is the flattened input, at its own
  size; otherwise one side is 1200 and the other is within one pixel of its proportional
  value, so the aspect ratio is kept up to the rounding to whole pixels. For every other
  mode the encoder's error propagates and no bytes are returned.
\<close>

theorem resize_image_result:
  assumes "image_open c image_data = Inr img" and "im_size img = (w, h)"
    and "0 < w" and "0 < h"
  shows "(mode img \<in> {Mode_RGBA, Mode_LA, Mode_P} \<or> jpeg_writable (mode img) \<longrightarrow>
           (\<exists>img2. resize_image c image_data = Inr (encode_jpeg c img2 95) \<and>
                   mode img2 = mode (flatten img) \<and> jpeg_writable (mode img2) \<and>
                   mode img2 \<notin> {Mode_RGBA, Mode_LA, Mode_P} \<and>
                   1 \<le> fst (im_size img2) \<and> fst (im_size img2) \<le> 1200 \<and>
                   1 \<le> snd (im_size img2) \<and> snd (im_size img2) \<le> 1200 \<and>
                   (w \<le> 1200 \<and> h \<le> 1200 \<longrightarrow> img2 = flatten img \<and> im_size img2 = (w, h)) \<and>
                   (\<not> (w \<le> 1200 \<and> h \<le> 1200) \<longrightarrow>
                      snd (im_size img2) = 1200 \<and> fst (im_size img2) * h < 1200 * w + h \<and>
                        1200 * w < fst (im_size img2) * h + h \<or>
                      fst (im_size img2) = 1200 \<and> snd (im_size img2) * w < 1200 * h + w \<and>
                        1200 * h < snd (im_size img2) * w + w))) \<and>
         (\<not> (mode img \<in> {Mode_RGBA, Mode_LA, Mode_P} \<or> jpeg_writable (mode img)) \<longrightarrow>
            resize_image c image_data =
              Inl (Exception (asc ''cannot write mode '' @ asc (mode_name (mode img)) @
                              asc '' as JPEG'')))"
proof -
  have fs: "im_size (flatten img) = (w, h)" using assms(2) by (simp add: flatten_size)
  from thumbnail_result [OF fs assms(3) assms(4), of c]
  obtain i2 where t: "thumbnail c (flatten img) (1200, 1200) = Inr i2"
    and m: "mode i2 = mode (flatten img)"
    and b: "1 \<le> fst (im_size i2)" "fst (im_size i2) \<le> 1200"
           "1 \<le> snd (im_size i2)" "snd (im_size i2) \<le> 1200"
    and k: "w \<le> 1200 \<and> h \<le> 1200 \<longrightarrow> i2 = flatten img"
    and a: "\<not> (w \<le> 1200 \<and> h \<le> 1200) \<longrightarrow>
              snd (im_size i2) = 1200 \<and> fst (im_size i2) * h < 1200 * w + h \<and>
                1200 * w < fst (im_size i2) * h + h \<or>
              fst (im_size i2) = 1200 \<and> snd (im_size i2) * w < 1200 * h + w \<and>
                1200 * h < snd (im_size i2) * w + w"
    by (elim exE conjE)
  have r: "resize_image c image_data =
             (case save_jpeg c i2 95 of Inl msg \<Rightarrow> Inl (Exception msg) | Inr output \<Rightarrow> Inr output)"
    using assms(1) t by (simp add: resize_image_def Let_def)
  from b have nz: "\<not> (fst (im_size i2) = 0 \<or> snd (im_size i2) = 0)" by simp
  show ?thesis
  proof (intro conjI impI)
    assume ok: "mode img \<in> {Mode_RGBA, Mode_LA, Mode_P} \<or> jpeg_writable (mode img)"
    have jw: "jpeg_writable (mode i2)"
      using ok m by (auto simp add: flatten_mode jpeg_writable_RGB)
    have "resize_image c image_data = Inr (encode_jpeg c i2 95)"
      using r nz jw by (simp add: save_jpeg_def)
    moreover have "mode i2 \<notin> {Mode_RGBA, Mode_LA, Mode_P}"
      using jw by (rule jpeg_writable_opaque)
    moreover have "w \<le> 1200 \<and> h \<le> 1200 \<longrightarrow> i2 = flatten img \<and> im_size i2 = (w, h)"
      using k fs by auto
    ultimately show "\<exists>img2. resize_image c image_data = Inr (encode_jpeg c img2 95) \<and>
                   mode img2 = mode (flatten img) \<and> jpeg_writable (mode img2) \<and>
                   mode img2 \<notin> {Mode_RGBA, Mode_LA, Mode_P} \<and>
                   1 \<le> fst (im_size img2) \<and> fst (im_size img2) \<le> 1200 \<and>
                   1 \<le> snd (im_size img2) \<and> snd (im_size img2) \<le> 1200 \<and>
                   (w \<le> 1200 \<and> h \<le> 1200 \<longrightarrow> img2 = flatten img \<and> im_size img2 = (w, h)) \<and>
                   (\<not> (w \<le> 1200 \<and> h \<le> 1200) \<longrightarrow>
                      snd (im_size img2) = 1200 \<and> fst (im_size img2) * h < 1200 * w + h \<and>
                        1200 * w < fst (im_size img2) * h + h \<or>
                      fst (im_size img2) = 1200 \<and> snd (im_size img2) * w < 1200 * h + w \<and>
                        1200 * h < snd (im_size img2) * w + w)"
      using m jw b a by blast
  next
    assume no: "\<not> (mode img \<in> {Mode_RGBA, Mode_LA, Mode_P} \<or> jpeg_writable (mode img))"
    then have "mode i2 = mode img" using m by (simp add: flatten_mode)
    with no r nz show "resize_image c image_data =
              Inl (Exception (asc ''cannot write mode '' @ asc (mode_name (mode img)) @
                              asc '' as JPEG''))"
      by (simp add: save_jpeg_def)
  qed
qed

text \<open>
  Where the claim as worded fails. A file that decodes to a valid one-pixel image of
  mode F (32-bit floating point, as a TIFF can hold) is not turned into JPEG bytes: the
  source flattens only RGBA, LA and P, so the encoder refuses the mode and the error
  propagates. And the aspect ratio is preserved only up to whole pixels: 1201 by 1200
  becomes 1200 by 1199.
\<close>

theorem resize_image_mode_F_counterexample:
  "image_open float_codec [73, 73, 42, 0] =
     Inr \<lparr>mode = Mode_other ''F'', im_size = (1, 1), pixels = [[0]], palette = []\<rparr> \<and>
   resize_image float_codec [73, 73, 42, 0] =
     Inl (Exception (asc ''cannot write mode F as JPEG'')) \<and>
   thumbnail_size (1201, 1200) (1200, 1200) = Inr (1200, 1199) \<and>
   (1201::nat) * 1199 \<noteq> 1200 * 1200"
  by (simp add: float_codec_def plain_codec_def resize_image_def flatten_def thumbnail_def
      thumbnail_size_def save_jpeg_def jpeg_writable_def asc_def dist_def Let_def)

theorem resize_image_result_witness:
  "image_open wide_codec [255, 216] =
     Inr \<lparr>mode = Mode_RGBA, im_size = (4000, 3000),
          pixels = replicate 12000000 [0, 0, 0, 255], palette = []\<rparr> \<and>
   resize_image wide_codec [255, 216] = Inr [255, 216, 255, 217] \<and>
   thumbnail_size (4000, 3000) (1200, 1200) = Inr (1200, 900)"
proof -
  have o: "image_open wide_codec [255, 216] =
     Inr \<lparr>mode = Mode_RGBA, im_size = (4000, 3000),
          pixels = replicate 12000000 [0, 0, 0, 255], palette = []\<rparr>"
    by (simp add: wide_codec_def plain_codec_def)
  have e: "\<And>i. encode_jpeg wide_codec i 95 = [255, 216, 255, 217]"
    by (simp add: wide_codec_def plain_codec_def)
  have s: "im_size \<lparr>mode = Mode_RGBA, im_size = (4000, 3000),
          pixels = replicate 12000000 [0, 0, 0, 255], palette = []\<rparr> = (4000, 3000)"
    by simp
  have p: "(0::nat) < 4000" "(0::nat) < 3000" by simp_all
  note th = resize_image_result [OF o s p(1) p(2), THEN conjunct1, rule_format]
  have "\<exists>img2. resize_image wide_codec [255, 216] = Inr (encode_jpeg wide_codec img2 95)"
    using th by fastforce
  then have r: "resize_image wide_codec [255, 216] = Inr [255, 216, 255, 217]"
    by (simp add: e)
  have t: "thumbnail_size (4000, 3000) (1200, 1200) = Inr (1200, 900)"
    by (simp add: thumbnail_size_def dist_def Let_def)
  from o r t show ?thesis by simp
qed

lemma div255_exact:
  fixes x :: nat
  assumes "x \<le> 65025"
  shows "((x + 128) div 256 + (x + 128)) div 256 = (x + 127) div 255"
proof -
  define q where "q = (x + 127) div 255"
  define r where "r = (x + 127) mod 255 + 1"
  have y: "x + 128 = 255 * q + r" and r: "1 \<le> r" "r \<le> 255"
    unfolding q_def r_def by (simp_all add: Suc_leI)
  have q: "q \<le> 255" using assms unfolding q_def by simp
  show ?thesis
  proof (cases "q \<le> r")
    case True
    have "(255 * q + r) div 256 = q"
      by (rule div_nat_eqI) (use True r q in simp_all)
    moreover have "(q + (255 * q + r)) div 256 = q"
      by (rule div_nat_eqI) (use True r q in simp_all)
    ultimately show ?thesis unfolding y q_def [symmetric] by simp
  next
    case False
    then obtain p where p: "q = Suc p" by (cases q) simp_all
    have "(255 * q + r) div 256 = p"
      by (rule div_nat_eqI) (use False r q p in simp_all)
    moreover have "(p + (255 * q + r)) div 256 = q"
      by (rule div_nat_eqI) (use False r q p in simp_all)
    ultimately show ?thesis unfolding y q_def [symmetric] by simp
  qed
qed

lemma blend8_composite:
  assumes "a \<le> 255" and "c \<le> 255"
  shows "blend8 a 255 c = composite_over_white c a"
proof -
  have "c * a \<le> 255 * a" using assms(2) by simp
  then have "255 * (255 - a) + c * a \<le> 255 * (255 - a) + 255 * a" by simp
  also have "\<dots> = 65025" using assms(1) by simp
  finally have b: "255 * (255 - a) + c * a \<le> 65025" .
  from div255_exact [OF b] show ?thesis
    by (simp add: blend8_def composite_over_white_def Let_def add.commute add.left_commute)
qed

lemma composite_opaque: "c \<le> 255 \<Longrightarrow> composite_over_white c 255 = c"
  by (simp add: composite_over_white_def)

lemma zip_replicate_same:
  "length ps = n \<Longrightarrow>
   map f (zip (map g ps) (zip (replicate n w) ps)) = map (\<lambda>p. f (g p, w, p)) ps"
  by (induction ps arbitrary: n) auto

lemma flatten_other:
  "mode img \<notin> {Mode_RGBA, Mode_LA, Mode_P} \<Longrightarrow> flatten img = img"
  by (simp add: flatten_def)

lemma flatten_LA:
  "mode img = Mode_LA \<Longrightarrow> pixels (flatten img) = map rgb_bands (pixels img)"
  by (simp add: flatten_def paste_def Image_new_def Let_def)

lemma flatten_RGBA:
  assumes "mode img = Mode_RGBA" and "length (pixels img) = fst (im_size img) * snd (im_size img)"
  shows "pixels (flatten img) =
           map (\<lambda>p. map (\<lambda>(d, s). blend8 (if p = [] then 0 else last p) d s)
                        (zip [255, 255, 255] (rgb_bands p))) (pixels img)"
  using assms
  by (simp add: flatten_def paste_def Image_new_def Let_def last_band_def zip_replicate_same)

lemma flatten_RGBA_pixel:
  assumes "mode img = Mode_RGBA" and "length (pixels img) = fst (im_size img) * snd (im_size img)"
    and "i < length (pixels img)" and "pixels img ! i = [r, g, b, a]"
    and "r \<le> 255" "g \<le> 255" "b \<le> 255" "a \<le> 255"
  shows "pixels (flatten img) ! i =
           [composite_over_white r a, composite_over_white g a, composite_over_white b a]"
  using assms by (simp add: flatten_RGBA blend8_composite)

text \<open>
  Claim C4, on the input where the code departs from it. The claim: an image with an
  alpha channel is flattened onto white, every partly transparent pixel becoming its
  composite over white. For mode LA the source passes \<open>mask=None\<close> to \<open>paste\<close> (the
  mask is taken only \<open>if img.mode == 'RGBA'\<close>), so the alpha band is dropped: a grey
  pixel of level 100 at opacity 128 comes out as (100, 100, 100), where the composite
  over white is 177. For mode RGBA the flattening is the composite (\<open>flatten_RGBA_pixel\<close>).
\<close>

theorem flatten_LA_ignores_alpha_example:
  "mode veiled_grey = Mode_LA \<and> pixels veiled_grey = [[100, 128]] \<and>
   pixels (flatten veiled_grey) = [[100, 100, 100]] \<and>
   composite_over_white 100 128 = 177"
  by (simp add: veiled_grey_def flatten_def paste_def Image_new_def composite_over_white_def)

section \<open>Request handlers: proofs\<close>

lemma upload_result:
  assumes "upload_image_to_supabase c (Some cl) file n = (u, s)"
  shows "\<exists>cl'. s = Some cl' \<and> table_flowers cl' = table_flowers cl \<and>
           table_flower_types cl' = table_flower_types cl \<and>
           next_id cl' = next_id cl \<and> clock cl' = clock cl \<and>
           storage_error cl' = storage_error cl \<and>
           (u = None \<longrightarrow> bucket cl' = bucket cl \<and>
              (calls cl' = calls cl \<or> (\<exists>fn b. calls cl' = calls cl @ [StorageUpload fn b]))) \<and>
           (isl (resize_image c (content file)) \<longrightarrow> u = None \<and> calls cl' = calls cl) \<and>
           (storage_error cl \<noteq> None \<longrightarrow> u = None)"
  using assms
  by (auto simp: upload_image_to_supabase_def storage_upload_def get_public_url_def Let_def
           split: sum.splits option.splits prod.splits)

lemma update_data_empty [simp]: "update_data None None None None None None None = []"
  by (simp add: update_data_def)

lemma update_data_image_nonempty:
  "update_data name price type unit stock tags None \<noteq> [] \<Longrightarrow>
   update_data name price type unit stock tags u \<noteq> []"
  by (auto simp: update_data_def Let_def split: option.splits if_splits)

text \<open>
  Claim C5, as amended. An update request with no field and no image is rejected and
  the client, with its log of calls, is left as it was: with the validation error 400
  \<open>No data to update\<close> when the client is connected, and with the error 500
  \<open>DB not connected\<close> of the guard at the head of the handler when it is not.
\<close>

theorem empty_update_rejected:
  assumes "\<not> given_file image_file"
  shows "update_flower c supabase flower_id None None None None None None image_file =
           (Inl (if supabase = None then HTTPException 500 no_client
                 else HTTPException 400 (asc ''No data to update'')), supabase)"
  using assms
  by (auto simp: update_flower_def given_file_def split: option.splits)

text \<open>
  Claim C5 as stated fails without a client: the request is rejected by the connection
  guard with status 500, not by the validation with status 400.
\<close>

theorem update_flower_disconnected_counterexample:
  "update_flower no_codec None (asc ''1'') None None None None None None None
     = (Inl (HTTPException 500 (asc ''DB not connected'')), None)"
  by (simp add: update_flower_def no_client_def)

theorem empty_update_rejected_witness:
  "\<not> given_file (Some \<lparr>filename = Some [], content = []\<rparr>) \<and>
   update_flower no_codec (Some shop) (asc ''1'') None None None None None None
       (Some \<lparr>filename = Some [], content = []\<rparr>)
     = (Inl (HTTPException 400 (asc ''No data to update'')), Some shop)"
proof -
  have h: "\<not> given_file (Some \<lparr>filename = Some [], content = []\<rparr>)"
    by (simp add: given_file_def given_str_def)
  from empty_update_rejected [OF h, of no_codec "Some shop" "asc ''1''"] h
  show ?thesis by simp
qed

text \<open>
  Claim C10. An update request with no form field and an image whose upload returns no
  URL is rejected with the error 400 \<open>No data to update\<close>; the catalog table is not
  written, and the only call it may have added to the log is the upload that failed.
  The upload is the one the handler makes, so the client is connected.
\<close>

theorem image_only_update_with_failed_upload:
  assumes "given_str (filename file)"
    and "upload_image_to_supabase c (Some cl) file (asc ''flower'') = (None, s)"
  shows "update_flower c (Some cl) flower_id None None None None None None (Some file)
           = (Inl (HTTPException 400 (asc ''No data to update'')), s) \<and>
         (\<exists>cl'. s = Some cl' \<and> table_flowers cl' = table_flowers cl \<and> bucket cl' = bucket cl \<and>
            (calls cl' = calls cl \<or> (\<exists>fn b. calls cl' = calls cl @ [StorageUpload fn b])))"
proof -
  from upload_result [OF assms(2)] have
    "\<exists>cl'. s = Some cl' \<and> table_flowers cl' = table_flowers cl \<and> bucket cl' = bucket cl \<and>
            (calls cl' = calls cl \<or> (\<exists>fn b. calls cl' = calls cl @ [StorageUpload fn b]))"
    by auto
  moreover have "update_flower c (Some cl) flower_id None None None None None None (Some file)
           = (Inl (HTTPException 400 (asc ''No data to update'')), s)"
    using assms by (simp add: update_flower_def)
  ultimately show ?thesis by blast
qed

theorem image_only_update_with_failed_upload_witness:
  "given_str (filename photo) \<and>
   upload_image_to_supabase no_codec (Some shop) photo (asc ''flower'') = (None, Some shop) \<and>
   update_flower no_codec (Some shop) (asc ''1'') None None None None None None (Some photo)
     = (Inl (HTTPException 400 (asc ''No data to update'')), Some shop)"
proof -
  have g: "given_str (filename photo)" by (simp add: photo_def given_str_def asc_def)
  have u: "upload_image_to_supabase no_codec (Some shop) photo (asc ''flower'') = (None, Some shop)"
    by (simp add: upload_image_to_supabase_def resize_image_def no_codec_def)
  from image_only_update_with_failed_upload [OF g u, of "asc ''1''"] g u
  show ?thesis by blast
qed

subsection \<open>The payload and its merge into a record\<close>

lemma map_of_merge: "map_of (merge f data) = map_of f ++ map_of (rev data)"
proof (induction data arbitrary: f)
  case Nil
  show ?case by (simp add: merge_def)
next
  case (Cons kv data)
  obtain k v where kv: "kv = (k, v)" by (cases kv)
  have "merge f (kv # data) = merge (AList.update k v f) data"
    by (simp add: merge_def kv)
  then have "map_of (merge f (kv # data)) = map_of (AList.update k v f) ++ map_of (rev data)"
    using Cons.IH [of "AList.update k v f"] by simp
  also have "map_of (AList.update k v f) = (map_of f)(k \<mapsto> v)"
    by (rule update_conv')
  also have "(map_of f)(k \<mapsto> v) ++ map_of (rev data) = map_of f ++ map_of (rev (kv # data))"
    by (rule ext) (simp add: kv map_add_def split: option.splits)
  finally show ?case .
qed

lemma map_of_rev_distinct: "distinct (map fst xs) \<Longrightarrow> map_of (rev xs) = map_of xs"
proof (induction xs)
  case Nil
  show ?case by simp
next
  case (Cons kv xs)
  obtain k v where kv: "kv = (k, v)" by (cases kv)
  from Cons.prems kv have nk: "k \<notin> fst ` set xs" and d: "distinct (map fst xs)" by auto
  then have "map_of xs k = None" by (simp add: map_of_eq_None_iff)
  with Cons.IH [OF d] show ?case
    by (auto simp: kv fun_eq_iff map_add_def split: option.splits)
qed

lemma map_of_put_if:
  "map_of (case x of None \<Rightarrow> d | Some n \<Rightarrow> if P n then AList.update k (g n) d else d) k' =
     (if k' = k \<and> (\<exists>n. x = Some n \<and> P n) then map_option g x else map_of d k')"
  by (cases x) (simp_all add: update_conv')

lemma map_of_put:
  "map_of (case x of None \<Rightarrow> d | Some n \<Rightarrow> AList.update k (g n) d) k' =
     (if k' = k \<and> x \<noteq> None then map_option g x else map_of d k')"
  by (cases x) (simp_all add: update_conv')

lemma distinct_put_if:
  "distinct (map fst d) \<Longrightarrow>
   distinct (map fst (case x of None \<Rightarrow> d | Some n \<Rightarrow> if P n then AList.update k (g n) d else d))"
  by (cases x) (simp_all add: distinct_update)

lemma distinct_put:
  "distinct (map fst d) \<Longrightarrow>
   distinct (map fst (case x of None \<Rightarrow> d | Some n \<Rightarrow> AList.update k (g n) d))"
  by (cases x) (simp_all add: distinct_update)

lemma distinct_update_data:
  "distinct (map fst (update_data name price type unit stock tags image_url))"
  unfolding update_data_def Let_def
  by (intro distinct_put_if distinct_put) simp

lemma map_of_update_data:
  "map_of (update_data name price type unit stock tags image_url) k =
     (if k = ''image_url'' \<and> given_str image_url then map_option VStr image_url
      else if k = ''tags'' \<and> tags \<noteq> None then map_option VStr tags
      else if k = ''stock'' \<and> stock \<noteq> None then map_option VInt stock
      else if k = ''unit'' \<and> given_str unit then map_option VStr unit
      else if k = ''type'' \<and> given_str type then map_option VStr type
      else if k = ''price'' \<and> given_int price then map_option VInt price
      else if k = ''name'' \<and> given_str name then map_option VStr name
      else None)"
proof -
  have g: "given_str x \<longleftrightarrow> (\<exists>n. x = Some n \<and> n \<noteq> [])" for x
    by (cases x) (simp_all add: given_str_def)
  have gi: "given_int x \<longleftrightarrow> (\<exists>n. x = Some n \<and> n \<noteq> 0)" for x
    by (cases x) (simp_all add: given_int_def)
  have "map_of (update_data name price type unit stock tags image_url) k =
     (if k = ''image_url'' \<and> (\<exists>n. image_url = Some n \<and> n \<noteq> []) then map_option VStr image_url
      else if k = ''tags'' \<and> tags \<noteq> None then map_option VStr tags
      else if k = ''stock'' \<and> stock \<noteq> None then map_option VInt stock
      else if k = ''unit'' \<and> (\<exists>n. unit = Some n \<and> n \<noteq> []) then map_option VStr unit
      else if k = ''type'' \<and> (\<exists>n. type = Some n \<and> n \<noteq> []) then map_option VStr type
      else if k = ''price'' \<and> (\<exists>n. price = Some n \<and> n \<noteq> 0) then map_option VInt price
      else if k = ''name'' \<and> (\<exists>n. name = Some n \<and> n \<noteq> []) then map_option VStr name
      else None)"
    unfolding update_data_def Let_def map_of_put_if map_of_put
    by (simp only: map_of.simps)
  then show ?thesis unfolding g gi .
qed

lemma image_step:
  assumes "(case image_file of
              None \<Rightarrow> (None, Some cl)
            | Some f \<Rightarrow> if given_str (filename f) then upload_image_to_supabase c (Some cl) f n
                        else (None, Some cl)) = (url, s)"
  shows "\<exists>cl1. s = Some cl1 \<and> table_flowers cl1 = table_flowers cl \<and>
           (\<not> given_file image_file \<longrightarrow> url = None \<and> cl1 = cl)"
proof (cases image_file)
  case None
  with assms show ?thesis by (simp add: given_file_def)
next
  case (Some f)
  show ?thesis
  proof (cases "given_str (filename f)")
    case True
    with assms Some have "upload_image_to_supabase c (Some cl) f n = (url, s)" by simp
    from upload_result [OF this] True Some show ?thesis by (auto simp: given_file_def)
  next
    case False
    with assms Some show ?thesis by (simp add: given_file_def)
  qed
qed

lemma update_flower_connected:
  "update_flower c (Some cl) flower_id name price type unit stock tags image_file =
     (case (case image_file of
              None \<Rightarrow> (None, Some cl)
            | Some f \<Rightarrow>
                if given_str (filename f)
                then upload_image_to_supabase c (Some cl) f
                       (case name of Some n \<Rightarrow> if n \<noteq> [] then n else asc ''flower''
                        | None \<Rightarrow> asc ''flower'')
                else (None, Some cl)) of
        (image_url, sup1) \<Rightarrow>
          let data = update_data name price type unit stock tags image_url
          in if data = [] then (Inl (HTTPException 400 (asc ''No data to update'')), sup1)
             else
               case sup1 of
                 None \<Rightarrow> (Inl (HTTPException 500 (no_attribute ''NoneType'' ''table'')), sup1)
               | Some cl \<Rightarrow>
                   (case table_update cl data flower_id of
                      ([], cl') \<Rightarrow> (Inl (HTTPException 404 (asc ''Flower not found'')), Some cl')
                    | (f # fs, cl') \<Rightarrow> (Inr (asc ''Updated'', f), Some cl')))"
  by (simp add: update_flower_def)

lemma update_flower_success:
  assumes "update_flower c (Some cl) flower_id name price type unit stock tags image_file
             = (Inr (msg, g), Some cl')"
  shows "\<exists>url s.
           (case image_file of
              None \<Rightarrow> (None, Some cl)
            | Some f \<Rightarrow>
                if given_str (filename f)
                then upload_image_to_supabase c (Some cl) f
                       (case name of Some n \<Rightarrow> if n \<noteq> [] then n else asc ''flower''
                        | None \<Rightarrow> asc ''flower'')
                else (None, Some cl)) = (url, s) \<and>
           table_flowers cl' =
             map (\<lambda>f. if matches_id flower_id f
                       then merge f (update_data name price type unit stock tags url) else f)
               (table_flowers cl)"
proof -
  obtain url s where st: "(case image_file of
              None \<Rightarrow> (None, Some cl)
            | Some f \<Rightarrow>
                if given_str (filename f)
                then upload_image_to_supabase c (Some cl) f
                       (case name of Some n \<Rightarrow> if n \<noteq> [] then n else asc ''flower''
                        | None \<Rightarrow> asc ''flower'')
                else (None, Some cl)) = (url, s)"
    by fastforce
  from image_step [OF st] obtain cl1 where
    cl1: "s = Some cl1" "table_flowers cl1 = table_flowers cl"
    by blast
  from assms have "table_flowers cl' =
             map (\<lambda>f. if matches_id flower_id f
                       then merge f (update_data name price type unit stock tags url) else f)
               (table_flowers cl1)"
    unfolding update_flower_connected st
    by (auto simp: cl1(1) Let_def table_update_def split: if_splits list.splits)
  with cl1 st show ?thesis by auto
qed

lemma map_of_merge_update_data:
  "map_of (merge f (update_data name price type unit stock tags url)) k =
     (if k = ''name'' \<and> given_str name then map_option VStr name
      else if k = ''price'' \<and> given_int price then map_option VInt price
      else if k = ''type'' \<and> given_str type then map_option VStr type
      else if k = ''unit'' \<and> given_str unit then map_option VStr unit
      else if k = ''stock'' \<and> stock \<noteq> None then map_option VInt stock
      else if k = ''tags'' \<and> tags \<noteq> None then map_option VStr tags
      else if k = ''image_url'' \<and> given_str url then map_option VStr url
      else map_of f k)"
proof -
  have "map_of (merge f (update_data name price type unit stock tags url)) k =
     (case map_of (update_data name price type unit stock tags url) k of
        None \<Rightarrow> map_of f k | Some v \<Rightarrow> Some v)"
    by (simp add: map_of_merge map_of_rev_distinct [OF distinct_update_data] map_add_def)
  then show ?thesis
    unfolding map_of_update_data
    by (cases name; cases price; cases type; cases unit; cases stock; cases tags; cases url)
       (simp_all add: given_str_def given_int_def)
qed

text \<open>
  Claim C6, amended. The claim: exactly the fields present in the payload replace the
  stored ones, whatever their values. As the code is written: let \<open>url\<close> be what the
  handler's image step returns, that is nothing when no file with a file name is
  attached, and otherwise the result of \<open>upload_image_to_supabase\<close> on the file, under
  the supplied name when it is non-empty and under \<open>flower\<close> otherwise. After a
  successful update every record other than the target is unchanged, and in the target
  a column changes exactly as follows: \<open>name\<close>, \<open>type\<close> and \<open>unit\<close> are replaced when a
  non-empty string was supplied, \<open>price\<close> when a non-zero integer was supplied, \<open>stock\<close>
  and \<open>tags\<close> whenever they were supplied (also 0 and the empty string), \<open>image_url\<close> by
  \<open>url\<close> when it is a non-empty string; every other column keeps its value.
\<close>

theorem partial_update_effect:
  assumes "update_flower c (Some cl) flower_id name price type unit stock tags image_file
             = (Inr (msg, g), Some cl')"
  shows "\<exists>url s.
     (case image_file of
        None \<Rightarrow> (None, Some cl)
      | Some f \<Rightarrow>
          if given_str (filename f)
          then upload_image_to_supabase c (Some cl) f
                 (case name of Some n \<Rightarrow> if n \<noteq> [] then n else asc ''flower''
                  | None \<Rightarrow> asc ''flower'')
          else (None, Some cl)) = (url, s) \<and>
     length (table_flowers cl') = length (table_flowers cl) \<and>
     (\<forall>i < length (table_flowers cl).
        (\<not> matches_id flower_id (table_flowers cl ! i) \<longrightarrow>
           table_flowers cl' ! i = table_flowers cl ! i) \<and>
        (matches_id flower_id (table_flowers cl ! i) \<longrightarrow>
           (\<forall>k. map_of (table_flowers cl' ! i) k =
              (if k = ''name'' \<and> given_str name then map_option VStr name
               else if k = ''price'' \<and> given_int price then map_option VInt price
               else if k = ''type'' \<and> given_str type then map_option VStr type
               else if k = ''unit'' \<and> given_str unit then map_option VStr unit
               else if k = ''stock'' \<and> stock \<noteq> None then map_option VInt stock
               else if k = ''tags'' \<and> tags \<noteq> None then map_option VStr tags
               else if k = ''image_url'' \<and> given_str url then map_option VStr url
               else map_of (table_flowers cl ! i) k))))"
proof -
  from update_flower_success [OF assms] obtain url s where
    u: "(case image_file of
        None \<Rightarrow> (None, Some cl)
      | Some f \<Rightarrow>
          if given_str (filename f)
          then upload_image_to_supabase c (Some cl) f
                 (case name of Some n \<Rightarrow> if n \<noteq> [] then n else asc ''flower''
                  | None \<Rightarrow> asc ''flower'')
          else (None, Some cl)) = (url, s)"
    and t: "table_flowers cl' =
             map (\<lambda>f. if matches_id flower_id f
                       then merge f (update_data name price type unit stock tags url) else f)
               (table_flowers cl)"
    by blast
  have len: "length (table_flowers cl') = length (table_flowers cl)"
    by (simp add: t)
  have rows: "\<forall>i < length (table_flowers cl).
        (\<not> matches_id flower_id (table_flowers cl ! i) \<longrightarrow>
           table_flowers cl' ! i = table_flowers cl ! i) \<and>
        (matches_id flower_id (table_flowers cl ! i) \<longrightarrow>
           (\<forall>k. map_of (table_flowers cl' ! i) k =
              (if k = ''name'' \<and> given_str name then map_option VStr name
               else if k = ''price'' \<and> given_int price then map_option VInt price
               else if k = ''type'' \<and> given_str type then map_option VStr type
               else if k = ''unit'' \<and> given_str unit then map_option VStr unit
               else if k = ''stock'' \<and> stock \<noteq> None then map_option VInt stock
               else if k = ''tags'' \<and> tags \<noteq> None then map_option VStr tags
               else if k = ''image_url'' \<and> given_str url then map_option VStr url
               else map_of (table_flowers cl ! i) k)))"
  proof (intro allI impI conjI)
    fix i assume i: "i < length (table_flowers cl)" and "\<not> matches_id flower_id (table_flowers cl ! i)"
    then show "table_flowers cl' ! i = table_flowers cl ! i" by (simp add: t)
  next
    fix i k assume i: "i < length (table_flowers cl)" and m: "matches_id flower_id (table_flowers cl ! i)"
    then have "table_flowers cl' ! i =
        merge (table_flowers cl ! i) (update_data name price type unit stock tags url)"
      by (simp add: t)
    then show "map_of (table_flowers cl' ! i) k =
              (if k = ''name'' \<and> given_str name then map_option VStr name
               else if k = ''price'' \<and> given_int price then map_option VInt price
               else if k = ''type'' \<and> given_str type then map_option VStr type
               else if k = ''unit'' \<and> given_str unit then map_option VStr unit
               else if k = ''stock'' \<and> stock \<noteq> None then map_option VInt stock
               else if k = ''tags'' \<and> tags \<noteq> None then map_option VStr tags
               else if k = ''image_url'' \<and> given_str url then map_option VStr url
               else map_of (table_flowers cl ! i) k)"
      by (simp only: map_of_merge_update_data)
  qed
  show ?thesis
    by (intro exI [of _ url] exI [of _ s] conjI u len rows)
qed

text \<open>
  Claim C6 as stated fails for a supplied empty name and a supplied price of 0: the
  payload sent to the store holds \<open>stock\<close> alone and the record keeps its name and price.
\<close>

theorem update_falsy_fields_counterexample:
  "update_flower no_codec (Some shop) (asc ''1'') (Some []) (Some 0) None None (Some 7) None None
     = (Inr (asc ''Updated'',
             [(''id'', VInt 1), (''created_at'', VInt 100), (''name'', VStr (asc ''Rose'')),
              (''price'', VInt 50000), (''type'', VStr (asc ''Red'')),
              (''unit'', VStr (asc ''bunch'')), (''stock'', VInt 7)]),
        Some (shop\<lparr>table_flowers :=
                      [[(''id'', VInt 1), (''created_at'', VInt 100), (''name'', VStr (asc ''Rose'')),
                        (''price'', VInt 50000), (''type'', VStr (asc ''Red'')),
                        (''unit'', VStr (asc ''bunch'')), (''stock'', VInt 7)], lily],
                    calls := [TableUpdate (asc ''1'') [(''stock'', VInt 7)]]\<rparr>))"
  by (simp add: update_flower_def update_data_def table_update_def matches_id_def merge_def
        shop_def rose_def lily_def str_int_def digits10.simps asc_def)

theorem partial_update_effect_witness:
  "fst (update_flower plain_codec (Some shop) (asc ''2'') (Some (asc ''Lilium'')) (Some 0) (Some [])
          None (Some 0) (Some []) (Some photo))
     = Inr (asc ''Updated'',
            [(''id'', VInt 2), (''name'', VStr (asc ''Lilium'')), (''price'', VInt 1234567),
             (''type'', VStr (asc ''White'')), (''unit'', VStr (asc ''stem'')), (''stock'', VInt 0),
             (''tags'', VStr []),
             (''image_url'', VStr (asc ''https://cdn.example/flower-images/flower_00ff.jpg''))]) \<and>
   map_option table_flowers
     (snd (update_flower plain_codec (Some shop) (asc ''2'') (Some (asc ''Lilium'')) (Some 0) (Some [])
             None (Some 0) (Some []) (Some photo)))
     = Some [(''id'', VInt 1) # (''created_at'', VInt 100) # rose,
             [(''id'', VInt 2), (''name'', VStr (asc ''Lilium'')), (''price'', VInt 1234567),
              (''type'', VStr (asc ''White'')), (''unit'', VStr (asc ''stem'')), (''stock'', VInt 0),
              (''tags'', VStr []),
              (''image_url'', VStr (asc ''https://cdn.example/flower-images/flower_00ff.jpg''))]] \<and>
   matches_id (asc ''2'') (table_flowers shop ! 1) \<and>
   map_of (table_flowers shop ! 1) ''image_url'' = Some VNone \<and>
   map_of (table_flowers shop ! 1) ''price'' = Some (VInt 1234567) \<and>
   fst (upload_image_to_supabase plain_codec (Some shop) photo (asc ''Lilium''))
     = Some (asc ''https://cdn.example/flower-images/flower_00ff.jpg'')"
proof -
  let ?u = "asc ''https://cdn.example/flower-images/flower_00ff.jpg''"
  let ?g = "[(''id'', VInt 2), (''name'', VStr (asc ''Lilium'')), (''price'', VInt 1234567),
              (''type'', VStr (asc ''White'')), (''unit'', VStr (asc ''stem'')), (''stock'', VInt 0),
              (''tags'', VStr []), (''image_url'', VStr ?u)]"
  let ?cl = "shop\<lparr>table_flowers := [(''id'', VInt 1) # (''created_at'', VInt 100) # rose, ?g],
                    bucket := [(asc ''flower_00ff.jpg'', [255, 216, 255, 217])],
                    calls := [StorageUpload (asc ''flower_00ff.jpg'') [255, 216, 255, 217],
                              StorageUrl (asc ''flower_00ff.jpg''),
                              TableUpdate (asc ''2'')
                                [(''name'', VStr (asc ''Lilium'')), (''stock'', VInt 0),
                                 (''tags'', VStr []), (''image_url'', VStr ?u)]],
                    uuids := []\<rparr>"
  have up: "upload_image_to_supabase plain_codec (Some shop) photo (asc ''Lilium'')
      = (Some ?u, Some (shop\<lparr>bucket := [(asc ''flower_00ff.jpg'', [255, 216, 255, 217])],
                    calls := [StorageUpload (asc ''flower_00ff.jpg'') [255, 216, 255, 217],
                              StorageUrl (asc ''flower_00ff.jpg'')],
                    uuids := []\<rparr>))"
    by (simp add: upload_image_to_supabase_def resize_image_def plain_codec_def flatten_def
          thumbnail_def thumbnail_size_def save_jpeg_def jpeg_writable_def storage_upload_def
          get_public_url_def strip_def is_space_def shop_def photo_def asc_def Let_def)
  have r: "update_flower plain_codec (Some shop) (asc ''2'') (Some (asc ''Lilium'')) (Some 0) (Some [])
          None (Some 0) (Some []) (Some photo) = (Inr (asc ''Updated'', ?g), Some ?cl)"
    unfolding update_flower_connected
    by (simp add: up, simp add: update_data_def table_update_def matches_id_def merge_def
        shop_def rose_def lily_def photo_def given_str_def str_int_def digits10.simps asc_def Let_def)
  have m: "matches_id (asc ''2'') (table_flowers shop ! 1)"
    by (simp add: matches_id_def shop_def lily_def str_int_def digits10.simps asc_def)
  have i: "1 < length (table_flowers shop)" by (simp add: shop_def)
  from partial_update_effect [OF r] obtain url s where
    st: "(case Some photo of
        None \<Rightarrow> (None, Some shop)
      | Some f \<Rightarrow>
          if given_str (filename f)
          then upload_image_to_supabase plain_codec (Some shop) f
                 (case Some (asc ''Lilium'') of Some n \<Rightarrow> if n \<noteq> [] then n else asc ''flower''
                  | None \<Rightarrow> asc ''flower'')
          else (None, Some shop)) = (url, s)"
    and rows: "\<forall>i < length (table_flowers shop).
        (\<not> matches_id (asc ''2'') (table_flowers shop ! i) \<longrightarrow>
           table_flowers ?cl ! i = table_flowers shop ! i) \<and>
        (matches_id (asc ''2'') (table_flowers shop ! i) \<longrightarrow>
           (\<forall>k. map_of (table_flowers ?cl ! i) k =
              (if k = ''name'' \<and> given_str (Some (asc ''Lilium'')) then map_option VStr (Some (asc ''Lilium''))
               else if k = ''price'' \<and> given_int (Some 0) then map_option VInt (Some 0)
               else if k = ''type'' \<and> given_str (Some []) then map_option VStr (Some [])
               else if k = ''unit'' \<and> given_str None then map_option VStr None
               else if k = ''stock'' \<and> Some (0::int) \<noteq> None then map_option VInt (Some 0)
               else if k = ''tags'' \<and> Some ([]::ustr) \<noteq> None then map_option VStr (Some [])
               else if k = ''image_url'' \<and> given_str url then map_option VStr url
               else map_of (table_flowers shop ! i) k)))"
    by blast
  have gf: "given_str (filename photo)" by (simp add: photo_def given_str_def asc_def)
  have ln: "asc ''Lilium'' \<noteq> []" by (simp add: asc_def)
  from st gf ln have "upload_image_to_supabase plain_codec (Some shop) photo (asc ''Lilium'') = (url, s)"
    by simp
  with up have url: "url = Some ?u" by simp
  have f1: "fst (update_flower plain_codec (Some shop) (asc ''2'') (Some (asc ''Lilium'')) (Some 0) (Some [])
          None (Some 0) (Some []) (Some photo)) = Inr (asc ''Updated'', ?g)"
    by (simp add: r)
  have f2: "map_option table_flowers
     (snd (update_flower plain_codec (Some shop) (asc ''2'') (Some (asc ''Lilium'')) (Some 0) (Some [])
             None (Some 0) (Some []) (Some photo)))
     = Some [(''id'', VInt 1) # (''created_at'', VInt 100) # rose, ?g]"
    by (simp add: r)
  have p: "map_of (table_flowers shop ! 1) ''price'' = Some (VInt 1234567)"
      "map_of (table_flowers shop ! 1) ''image_url'' = Some VNone"
    by (simp_all add: shop_def lily_def)
  have f3: "fst (upload_image_to_supabase plain_codec (Some shop) photo (asc ''Lilium'')) = Some ?u"
    by (simp add: up)
  from f1 f2 m p f3 url rows show ?thesis by blast
qed

text \<open>
  Claim C7, amended. The claim: an update or a delete whose target id is absent yields
  a not-found error. As the code is written, with a connected client and no record of
  the requested id: \<open>delete_flower\<close> makes its two store calls and answers \<open>Deleted\<close>,
  with the table unchanged; \<open>update_flower\<close> answers 404 \<open>Flower not found\<close>, with the
  table unchanged, whenever its payload is not empty, the payload being built from the
  supplied fields and from the URL that the image step returns (so also for a request
  that carries an image alone, when the upload returns a URL).
\<close>

theorem absent_target:
  assumes "\<forall>f \<in> set (table_flowers cl). \<not> matches_id flower_id f"
  shows "delete_flower (Some cl) flower_id
           = (Inr (asc ''Deleted''), Some (cl\<lparr>calls := calls cl @ [TableSelect, TableDelete flower_id]\<rparr>)) \<and>
         (update_data name price type unit stock tags
            (fst (case image_file of
                    None \<Rightarrow> (None, Some cl)
                  | Some f \<Rightarrow>
                      if given_str (filename f)
                      then upload_image_to_supabase c (Some cl) f
                             (case name of Some n \<Rightarrow> if n \<noteq> [] then n else asc ''flower''
                              | None \<Rightarrow> asc ''flower'')
                      else (None, Some cl))) \<noteq> [] \<longrightarrow>
            (\<exists>cl'. update_flower c (Some cl) flower_id name price type unit stock tags image_file
                     = (Inl (HTTPException 404 (asc ''Flower not found'')), Some cl') \<and>
                   table_flowers cl' = table_flowers cl))"
proof (intro conjI impI)
  have none: "filter (matches_id flower_id) (table_flowers cl) = []"
    using assms by (simp add: filter_empty_conv)
  have all: "filter (\<lambda>f. \<not> matches_id flower_id f) (table_flowers cl) = table_flowers cl"
    using assms by (simp add: filter_id_conv)
  show "delete_flower (Some cl) flower_id
           = (Inr (asc ''Deleted''), Some (cl\<lparr>calls := calls cl @ [TableSelect, TableDelete flower_id]\<rparr>))"
    by (simp add: delete_flower_def table_select_id_def table_delete_def none all)
next
  obtain url s where st: "(case image_file of
              None \<Rightarrow> (None, Some cl)
            | Some f \<Rightarrow>
                if given_str (filename f)
                then upload_image_to_supabase c (Some cl) f
                       (case name of Some n \<Rightarrow> if n \<noteq> [] then n else asc ''flower''
                        | None \<Rightarrow> asc ''flower'')
                else (None, Some cl)) = (url, s)"
    by fastforce
  assume "update_data name price type unit stock tags
            (fst (case image_file of
                    None \<Rightarrow> (None, Some cl)
                  | Some f \<Rightarrow>
                      if given_str (filename f)
                      then upload_image_to_supabase c (Some cl) f
                             (case name of Some n \<Rightarrow> if n \<noteq> [] then n else asc ''flower''
                              | None \<Rightarrow> asc ''flower'')
                      else (None, Some cl))) \<noteq> []"
  then have ne: "update_data name price type unit stock tags url \<noteq> []"
    unfolding st by simp
  from image_step [OF st] obtain cl1 where
    cl1: "s = Some cl1" "table_flowers cl1 = table_flowers cl"
    by blast
  have none: "filter (matches_id flower_id) (table_flowers cl1) = []"
    using assms by (simp add: filter_empty_conv cl1(2))
  have same: "map (\<lambda>f. if matches_id flower_id f
                       then merge f (update_data name price type unit stock tags url) else f)
               (table_flowers cl1) = table_flowers cl1"
    using assms by (simp add: cl1(2) map_idI)
  let ?cl' = "cl1\<lparr>calls := calls cl1 @
                 [TableUpdate flower_id (update_data name price type unit stock tags url)]\<rparr>"
  have "update_flower c (Some cl) flower_id name price type unit stock tags image_file
          = (Inl (HTTPException 404 (asc ''Flower not found'')), Some ?cl')"
    unfolding update_flower_connected st
    by (simp add: cl1(1) Let_def ne table_update_def none same)
  moreover have "table_flowers ?cl' = table_flowers cl" by (simp add: cl1(2))
  ultimately show "\<exists>cl'. update_flower c (Some cl) flower_id name price type unit stock tags image_file
                     = (Inl (HTTPException 404 (asc ''Flower not found'')), Some cl') \<and>
                   table_flowers cl' = table_flowers cl"
    by blast
qed

text \<open>
  Claim C7 as stated fails for delete: deleting the absent id 999 reports success.
\<close>

theorem delete_absent_counterexample:
  "filter (matches_id (asc ''999'')) (table_flowers shop) = [] \<and>
   delete_flower (Some shop) (asc ''999'')
     = (Inr (asc ''Deleted''), Some (shop\<lparr>calls := [TableSelect, TableDelete (asc ''999'')]\<rparr>))"
  by (simp add: delete_flower_def table_select_id_def table_delete_def matches_id_def
        shop_def rose_def lily_def str_int_def digits10.simps asc_def)

theorem absent_target_witness:
  "\<not> matches_id (asc ''999'') (table_flowers shop ! 0) \<and>
   \<not> matches_id (asc ''999'') (table_flowers shop ! 1) \<and>
   length (table_flowers shop) = 2 \<and>
   delete_flower (Some shop) (asc ''999'')
     = (Inr (asc ''Deleted''), Some (shop\<lparr>calls := [TableSelect, TableDelete (asc ''999'')]\<rparr>)) \<and>
   update_data None None None None None None
     (fst (upload_image_to_supabase plain_codec (Some shop) photo (asc ''flower'')))
     = [(''image_url'', VStr (asc ''https://cdn.example/flower-images/flower_00ff.jpg''))] \<and>
   fst (update_flower plain_codec (Some shop) (asc ''999'') None None None None None None (Some photo))
     = Inl (HTTPException 404 (asc ''Flower not found'')) \<and>
   map_option table_flowers
     (snd (update_flower plain_codec (Some shop) (asc ''999'') None None None None None None (Some photo)))
     = Some (table_flowers shop)"
proof -
  let ?u = "asc ''https://cdn.example/flower-images/flower_00ff.jpg''"
  have m: "\<not> matches_id (asc ''999'') (table_flowers shop ! 0)"
      "\<not> matches_id (asc ''999'') (table_flowers shop ! 1)" "length (table_flowers shop) = 2"
    by (simp_all add: matches_id_def shop_def rose_def lily_def str_int_def digits10.simps asc_def)
  have h: "\<forall>f \<in> set (table_flowers shop). \<not> matches_id (asc ''999'') f"
    by (simp add: matches_id_def shop_def rose_def lily_def str_int_def digits10.simps asc_def)
  have up: "fst (upload_image_to_supabase plain_codec (Some shop) photo (asc ''flower'')) = Some ?u"
    by (simp add: upload_image_to_supabase_def resize_image_def plain_codec_def flatten_def
          thumbnail_def thumbnail_size_def save_jpeg_def jpeg_writable_def storage_upload_def
          get_public_url_def strip_def is_space_def shop_def photo_def asc_def Let_def)
  have d: "update_data None None None None None None
     (fst (upload_image_to_supabase plain_codec (Some shop) photo (asc ''flower'')))
     = [(''image_url'', VStr ?u)]"
    unfolding up by (simp add: update_data_def asc_def)
  have gf: "given_str (filename photo)" by (simp add: photo_def given_str_def asc_def)
  have ne: "update_data None None None None None None
            (fst (case Some photo of
                    None \<Rightarrow> (None, Some shop)
                  | Some f \<Rightarrow>
                      if given_str (filename f)
                      then upload_image_to_supabase plain_codec (Some shop) f
                             (case None of Some n \<Rightarrow> if n \<noteq> [] then n else asc ''flower''
                              | None \<Rightarrow> asc ''flower'')
                      else (None, Some shop))) \<noteq> []"
    using d gf by simp
  from absent_target [OF h, where name = None and price = None and type = None and unit = None
      and stock = None and tags = None and image_file = "Some photo" and c = plain_codec] ne
  obtain cl' where
    del: "delete_flower (Some shop) (asc ''999'')
           = (Inr (asc ''Deleted''), Some (shop\<lparr>calls := calls shop @ [TableSelect, TableDelete (asc ''999'')]\<rparr>))"
    and upd: "update_flower plain_codec (Some shop) (asc ''999'') None None None None None None (Some photo)
                     = (Inl (HTTPException 404 (asc ''Flower not found'')), Some cl')"
    and tb: "table_flowers cl' = table_flowers shop"
    by blast
  have c: "calls shop = []" by (simp add: shop_def)
  from upd tb have u1: "fst (update_flower plain_codec (Some shop) (asc ''999'') None None None None None
      None (Some photo)) = Inl (HTTPException 404 (asc ''Flower not found''))"
    and u2: "map_option table_flowers
     (snd (update_flower plain_codec (Some shop) (asc ''999'') None None None None None None (Some photo)))
     = Some (table_flowers shop)"
    by simp_all
  from del c have del': "delete_flower (Some shop) (asc ''999'')
     = (Inr (asc ''Deleted''), Some (shop\<lparr>calls := [TableSelect, TableDelete (asc ''999'')]\<rparr>))"
    by simp
  from m del' d u1 u2 show ?thesis by blast
qed

text \<open>
  Claim C9. When a create request carries an image and its normalization fails or the
  object store refuses the upload, the record is still inserted, with the submitted
  fields and a null \<open>image_url\<close>, and the bucket is unchanged; after a normalization
  failure the insert is the only call made, so no upload was attempted. The failure
  occurs inside the handler, past its connection guard, so the client is connected.
\<close>

theorem create_survives_image_failure:
  assumes "given_str (filename file)"
    and "isl (resize_image c (content file)) \<or> storage_error cl \<noteq> None"
  shows "\<exists>f cl'.
     create_flower c (Some cl) name price type unit stock tags (Some file)
       = (Inr (asc ''Flower created'', f), Some cl') \<and>
     table_flowers cl' = table_flowers cl @ [f] \<and> bucket cl' = bucket cl \<and>
     map_of f ''image_url'' = Some VNone \<and>
     map_of f ''name'' = Some (VStr name) \<and> map_of f ''price'' = Some (VInt price) \<and>
     map_of f ''type'' = Some (VStr type) \<and> map_of f ''unit'' = Some (VStr unit) \<and>
     map_of f ''stock'' = Some (VInt stock) \<and> map_of f ''tags'' = Some (VStr tags) \<and>
     (isl (resize_image c (content file)) \<longrightarrow>
        calls cl' = calls cl @
          [TableInsert [(''name'', VStr name), (''price'', VInt price), (''type'', VStr type),
                        (''unit'', VStr unit), (''stock'', VInt stock), (''tags'', VStr tags),
                        (''image_url'', VNone)]])"
proof -
  obtain u s where up: "upload_image_to_supabase c (Some cl) file name = (u, s)"
    by fastforce
  from upload_result [OF up] assms(2) obtain cl1 where
    cl1: "s = Some cl1" "table_flowers cl1 = table_flowers cl" "u = None" "bucket cl1 = bucket cl"
      "isl (resize_image c (content file)) \<longrightarrow> calls cl1 = calls cl"
    by auto
  let ?data = "[(''name'', VStr name), (''price'', VInt price), (''type'', VStr type),
                (''unit'', VStr unit), (''stock'', VInt stock), (''tags'', VStr tags),
                (''image_url'', VNone)]"
  let ?f = "merge [(''id'', VInt (next_id cl1)), (''created_at'', VInt (clock cl1))] ?data"
  let ?cl' = "cl1\<lparr>table_flowers := table_flowers cl1 @ [?f], calls := calls cl1 @ [TableInsert ?data],
                   next_id := next_id cl1 + 1, clock := clock cl1 + 1\<rparr>"
  have r: "create_flower c (Some cl) name price type unit stock tags (Some file)
       = (Inr (asc ''Flower created'', ?f), Some ?cl')"
    using assms(1) by (simp add: create_flower_def up cl1(1,3) table_insert_def Let_def)
  have cols: "map_of ?f ''image_url'' = Some VNone"
     "map_of ?f ''name'' = Some (VStr name)" "map_of ?f ''price'' = Some (VInt price)"
     "map_of ?f ''type'' = Some (VStr type)" "map_of ?f ''unit'' = Some (VStr unit)"
     "map_of ?f ''stock'' = Some (VInt stock)" "map_of ?f ''tags'' = Some (VStr tags)"
    by (simp_all add: merge_def)
  have t: "table_flowers ?cl' = table_flowers cl @ [?f]" "bucket ?cl' = bucket cl"
    by (simp_all add: cl1)
  have l: "isl (resize_image c (content file)) \<longrightarrow> calls ?cl' = calls cl @ [TableInsert ?data]"
    using cl1(5) by simp
  show ?thesis
    by (intro exI [of _ ?f] exI [of _ ?cl'] conjI r t cols l)
qed

theorem create_survives_image_failure_witness:
  "given_str (filename photo) \<and> isl (resize_image no_codec (content photo)) \<and>
   create_flower no_codec (Some shop) (asc ''Tulip'') 10 (asc ''Red'') (asc ''stem'') 3 [] (Some photo)
     = (Inr (asc ''Flower created'',
             [(''id'', VInt 3), (''created_at'', VInt 101), (''name'', VStr (asc ''Tulip'')),
              (''price'', VInt 10), (''type'', VStr (asc ''Red'')), (''unit'', VStr (asc ''stem'')),
              (''stock'', VInt 3), (''tags'', VStr []), (''image_url'', VNone)]),
        Some (shop\<lparr>table_flowers := table_flowers shop @
                      [[(''id'', VInt 3), (''created_at'', VInt 101), (''name'', VStr (asc ''Tulip'')),
                        (''price'', VInt 10), (''type'', VStr (asc ''Red'')),
                        (''unit'', VStr (asc ''stem'')), (''stock'', VInt 3), (''tags'', VStr []),
                        (''image_url'', VNone)]],
                    calls := [TableInsert [(''name'', VStr (asc ''Tulip'')), (''price'', VInt 10),
                        (''type'', VStr (asc ''Red'')), (''unit'', VStr (asc ''stem'')),
                        (''stock'', VInt 3), (''tags'', VStr []), (''image_url'', VNone)]],
                    next_id := 4, clock := 102\<rparr>))"
proof -
  have g: "given_str (filename photo)" by (simp add: photo_def given_str_def asc_def)
  have n: "isl (resize_image no_codec (content photo))"
    by (simp add: resize_image_def no_codec_def)
  then have h: "isl (resize_image no_codec (content photo)) \<or> storage_error shop \<noteq> None" by simp
  from create_survives_image_failure [OF g h, of "asc ''Tulip''" 10 "asc ''Red''" "asc ''stem''" 3 "[]"]
  obtain f cl' where
    "create_flower no_codec (Some shop) (asc ''Tulip'') 10 (asc ''Red'') (asc ''stem'') 3 [] (Some photo)
       = (Inr (asc ''Flower created'', f), Some cl')"
    by blast
  then have "create_flower no_codec (Some shop) (asc ''Tulip'') 10 (asc ''Red'') (asc ''stem'') 3 []
       (Some photo)
     = (Inr (asc ''Flower created'',
             [(''id'', VInt 3), (''created_at'', VInt 101), (''name'', VStr (asc ''Tulip'')),
              (''price'', VInt 10), (''type'', VStr (asc ''Red'')), (''unit'', VStr (asc ''stem'')),
              (''stock'', VInt 3), (''tags'', VStr []), (''image_url'', VNone)]),
        Some (shop\<lparr>table_flowers := table_flowers shop @
                      [[(''id'', VInt 3), (''created_at'', VInt 101), (''name'', VStr (asc ''Tulip'')),
                        (''price'', VInt 10), (''type'', VStr (asc ''Red'')),
                        (''unit'', VStr (asc ''stem'')), (''stock'', VInt 3), (''tags'', VStr []),
                        (''image_url'', VNone)]],
                    calls := [TableInsert [(''name'', VStr (asc ''Tulip'')), (''price'', VInt 10),
                        (''type'', VStr (asc ''Red'')), (''unit'', VStr (asc ''stem'')),
                        (''stock'', VInt 3), (''tags'', VStr []), (''image_url'', VNone)]],
                    next_id := 4, clock := 102\<rparr>))"
    by (simp add: create_flower_def upload_image_to_supabase_def resize_image_def no_codec_def
          table_insert_def merge_def photo_def given_str_def shop_def asc_def Let_def)
  with g n show ?thesis by blast
qed

subsection \<open>Low stock\<close>

lemma set_range_rows: "set (range_rows a b fs) \<subseteq> set fs"
  unfolding range_rows_def
  using set_take_subset set_drop_subset by fastforce

lemma set_order_desc: "set (order_desc fs) = set fs"
  by (simp add: order_desc_def)

lemma lte_iff: "lte col n f \<longleftrightarrow> (\<exists>k. map_of f col = Some (VInt k) \<and> k \<le> n)"
  by (auto simp: lte_def split: option.splits val.splits)

lemma get_flowers_low_stock_sound:
  assumes "get_flowers ilike (Some cl) search type tags True skip limit = (Inr (data, n), s)"
    and "f \<in> set data"
  shows "\<exists>k. map_of f ''stock'' = Some (VInt k) \<and> k \<le> 10"
proof -
  from assms(1) obtain q where "data = range_rows skip (skip + limit - 1) (order_desc (filter (lte ''stock'' 10) q))"
    by (auto simp: get_flowers_def Let_def)
  with assms(2) set_range_rows have "f \<in> set (order_desc (filter (lte ''stock'' 10) q))" by blast
  then have "lte ''stock'' 10 f" by (simp add: set_order_desc)
  then show ?thesis by (simp add: lte_iff)
qed

lemma get_flowers_low_stock_complete:
  assumes "f \<in> set (table_flowers cl)" and "map_of f ''stock'' = Some (VInt k)" and "k \<le> 10"
    and "int (length (table_flowers cl)) \<le> limit"
  shows "\<exists>data n s. get_flowers ilike (Some cl) None None None True 0 limit = (Inr (data, n), s) \<and>
           f \<in> set data"
proof -
  let ?q = "order_desc (filter (lte ''stock'' 10) (table_flowers cl))"
  have "length ?q \<le> length (table_flowers cl)" by (simp add: order_desc_def)
  with assms(4) have "length ?q \<le> nat limit" by linarith
  then have "range_rows 0 (0 + limit - 1) ?q = ?q" by (simp add: range_rows_def)
  moreover have "f \<in> set ?q" using assms(1,2,3) by (simp add: set_order_desc lte_def)
  ultimately show ?thesis by (simp add: get_flowers_def Let_def)
qed

lemma sum_prices_defined:
  "\<forall>f \<in> set fs. is_int (map_of f ''price'') \<Longrightarrow> \<exists>v. sum_prices acc fs = Inr v"
  by (induction fs arbitrary: acc) (auto simp: is_int_iff subscript_def)

lemma count_low_stock_eq:
  "\<forall>f \<in> set fs. map_of f ''stock'' = None \<or> is_int (map_of f ''stock'') \<Longrightarrow>
   count_low_stock acc fs =
     Inr (acc + length (filter (\<lambda>f. \<exists>k. get f ''stock'' (VInt 0) = VInt k \<and> k \<le> 10) fs))"
  by (induction fs arbitrary: acc) (auto simp: is_int_iff get_def)

text \<open>
  Claim C8. The low-stock threshold is 10, inclusive. With \<open>low_stock\<close> set, every record
  the list endpoint returns has an integer stock of at most 10 (so a record with stock
  11 is never returned), and every record with an integer stock of at most 10 (stock 10
  among them) is returned when no other filter is set and the page holds the whole
  table; the low-stock count of the stats endpoint is the number of records whose stock
  (0 when the column is missing) is at most 10.
\<close>

theorem low_stock_threshold:
  "(get_flowers ilike (Some cl) search type tags True skip limit = (Inr (data, n), s) \<longrightarrow>
      (\<forall>f \<in> set data. \<exists>k. map_of f ''stock'' = Some (VInt k) \<and> k \<le> 10)) \<and>
   (f \<in> set (table_flowers cl) \<and> map_of f ''stock'' = Some (VInt k) \<and> k \<le> 10 \<and>
    int (length (table_flowers cl)) \<le> limit' \<longrightarrow>
      (\<exists>data n s. get_flowers ilike (Some cl) None None None True 0 limit' = (Inr (data, n), s) \<and>
         f \<in> set data)) \<and>
   ((\<forall>f \<in> set (table_flowers cl). is_int (map_of f ''price'') \<and>
        (map_of f ''stock'' = None \<or> is_int (map_of f ''stock''))) \<longrightarrow>
      (\<exists>st s. get_stats (Some cl) = (Inr st, s) \<and>
         low_stock_count st =
           length (filter (\<lambda>f. \<exists>k. get f ''stock'' (VInt 0) = VInt k \<and> k \<le> 10) (table_flowers cl))))"
proof (intro conjI impI)
  assume "get_flowers ilike (Some cl) search type tags True skip limit = (Inr (data, n), s)"
  then show "\<forall>f \<in> set data. \<exists>k. map_of f ''stock'' = Some (VInt k) \<and> k \<le> 10"
    using get_flowers_low_stock_sound by blast
next
  assume "f \<in> set (table_flowers cl) \<and> map_of f ''stock'' = Some (VInt k) \<and> k \<le> 10 \<and>
    int (length (table_flowers cl)) \<le> limit'"
  then show "\<exists>data n s. get_flowers ilike (Some cl) None None None True 0 limit' = (Inr (data, n), s) \<and>
         f \<in> set data"
    using get_flowers_low_stock_complete by blast
next
  assume wf: "\<forall>f \<in> set (table_flowers cl). is_int (map_of f ''price'') \<and>
        (map_of f ''stock'' = None \<or> is_int (map_of f ''stock''))"
  then obtain v where v: "sum_prices 0 (table_flowers cl) = Inr v"
    using sum_prices_defined [of "table_flowers cl" 0] by blast
  from wf have c: "count_low_stock 0 (table_flowers cl) =
     Inr (0 + length (filter (\<lambda>f. \<exists>k. get f ''stock'' (VInt 0) = VInt k \<and> k \<le> 10) (table_flowers cl)))"
    by (intro count_low_stock_eq) blast
  show "\<exists>st s. get_stats (Some cl) = (Inr st, s) \<and>
         low_stock_count st =
           length (filter (\<lambda>f. \<exists>k. get f ''stock'' (VInt 0) = VInt k \<and> k \<le> 10) (table_flowers cl))"
    by (simp add: get_stats_def Let_def v c)
qed

theorem low_stock_threshold_witness:
  "table_flowers shop10 = [orchid, lily, (''id'', VInt 1) # (''created_at'', VInt 100) # rose] \<and>
   map_of orchid ''stock'' = Some (VInt 10) \<and> map_of lily ''stock'' = Some (VInt 11) \<and>
   map_of ((''id'', VInt 1) # (''created_at'', VInt 100) # rose) ''stock'' = Some (VInt 5) \<and>
   get_flowers any_match (Some shop10) None None None True 0 100
     = (Inr ([(''id'', VInt 1) # (''created_at'', VInt 100) # rose, orchid], 2),
        Some (shop10\<lparr>calls := [TableSelect]\<rparr>)) \<and>
   get_stats (Some shop10)
     = (Inr \<lparr>total_flowers = 3, total_types = 0, total_value = 1364567, low_stock_count = 2\<rparr>,
        Some (shop10\<lparr>calls := [TableSelect, TableSelect]\<rparr>))"
proof -
  let ?r = "(''id'', VInt 1) # (''created_at'', VInt 100) # rose"
  have t: "table_flowers shop10 = [orchid, lily, ?r]" by (simp add: shop10_def)
  have a: "map_of orchid ''stock'' = Some (VInt 10)" "map_of lily ''stock'' = Some (VInt 11)"
      "map_of ?r ''stock'' = Some (VInt 5)"
    by (simp_all add: orchid_def lily_def rose_def)
  have b: "?r \<in> set (table_flowers shop10)" "(5::int) \<le> 10"
      "int (length (table_flowers shop10)) \<le> 100"
    by (simp_all add: t)
  have wf: "\<forall>f \<in> set (table_flowers shop10). is_int (map_of f ''price'') \<and>
        (map_of f ''stock'' = None \<or> is_int (map_of f ''stock''))"
    by (simp add: t orchid_def lily_def rose_def)
  have c: "created_at orchid = 50" "created_at ?r = 100"
    by (simp_all add: created_at_def orchid_def)
  have g: "get_flowers any_match (Some shop10) None None None True 0 100
     = (Inr ([?r, orchid], 2), Some (shop10\<lparr>calls := [TableSelect]\<rparr>))"
    by (simp add: get_flowers_def Let_def t lte_def order_desc_def range_rows_def created_at_def
          orchid_def lily_def rose_def)
       (simp add: shop10_def shop_def orchid_def lily_def rose_def)
  from low_stock_threshold [where ilike = any_match and cl = shop10 and search = None and type = None
      and tags = None and skip = 0 and limit = 100 and data = "[?r, orchid]" and n = 2
      and s = "Some (shop10\<lparr>calls := [TableSelect]\<rparr>)" and f = ?r and k = 5 and limit' = 100]
    g a b wf
  obtain st s where st: "get_stats (Some shop10) = (Inr st, s)"
    and "\<forall>f \<in> set [?r, orchid]. \<exists>k. map_of f ''stock'' = Some (VInt k) \<and> k \<le> 10"
    by blast
  have e: "get_stats (Some shop10)
     = (Inr \<lparr>total_flowers = 3, total_types = 0, total_value = 1364567, low_stock_count = 2\<rparr>,
        Some (shop10\<lparr>calls := [TableSelect, TableSelect]\<rparr>))"
    by (simp add: get_stats_def Let_def t orchid_def lily_def rose_def subscript_def get_def)
       (simp add: shop10_def shop_def)
  from st e t a g show ?thesis by blast
qed

end
